theory Spec2Isabelle
  imports Main "HOL-Library.AList"
begin

section \<open>The pod IP pool reconciler of the BGP control plane\<close>

text \<open>
  A shallow embedding of \<^verbatim>\<open>pkg/bgpv1/manager/reconcilerv2/pod_ip_pool.go\<close>.
  Go maps that the code iterates over are association lists (the order of the list stands
  for the unspecified iteration order of the Go map), a nil map is \<open>None\<close>, a Go
  \<^verbatim>\<open>(value, error)\<close> result is a sum with the error on the left, and a runtime panic
  is the result \<open>None\<close> of the function that panics.
\<close>

subsection \<open>Errors\<close>

text \<open>
  Go error values: the two sentinels the reconciler tests for, plain errors
  (\<^verbatim>\<open>errors.New\<close>, \<^verbatim>\<open>fmt.Errorf\<close> without \<^verbatim>\<open>%w\<close>), errors wrapping one error
  (\<^verbatim>\<open>fmt.Errorf("...: %w", err)\<close>) and joined errors (\<^verbatim>\<open>errors.Join\<close>).
\<close>

datatype error =
    ErrStoreUninitialized
  | ErrAbortReconcile
  | ErrMsg string
  | ErrWrap string error
  | ErrJoin "error list"

text \<open>\<^verbatim>\<open>errors.Is(err, target)\<close>: the error tree of \<open>err\<close> contains \<open>target\<close>.\<close>

fun errors_Is :: "error \<Rightarrow> error \<Rightarrow> bool" where
  "errors_Is (ErrWrap s e) t = (ErrWrap s e = t \<or> errors_Is e t)"
| "errors_Is (ErrJoin es) t = (ErrJoin es = t \<or> list_ex (\<lambda>e. errors_Is e t) es)"
| "errors_Is e t = (e = t)"

text \<open>
  \<^verbatim>\<open>errors.Join(a, b)\<close>: nil arguments are discarded, the result is nil when both are
  nil, and otherwise a new error wrapping the remaining ones (also when only one remains).
\<close>

fun errors_Join :: "error option \<Rightarrow> error option \<Rightarrow> error option" where
  "errors_Join None None = None"
| "errors_Join (Some a) None = Some (ErrJoin [a])"
| "errors_Join None (Some b) = Some (ErrJoin [b])"
| "errors_Join (Some a) (Some b) = Some (ErrJoin [a, b])"

subsection \<open>Go maps\<close>

text \<open>
  A Go map value: \<open>None\<close> is the nil map, \<open>Some al\<close> an allocated map with the entries
  \<open>al\<close>. Reading, ranging over and deleting from a nil map behave as on an empty map;
  storing into a nil map panics.
\<close>

type_synonym ('k, 'v) gomap = "('k \<times> 'v) list option"

definition go_make :: "('k, 'v) gomap" where
  "go_make = Some []"

definition go_range :: "('k, 'v) gomap \<Rightarrow> ('k \<times> 'v) list" where
  "go_range m = (case m of None \<Rightarrow> [] | Some al \<Rightarrow> al)"

definition go_lookup :: "('k, 'v) gomap \<Rightarrow> 'k \<Rightarrow> 'v option" where
  "go_lookup m k = map_of (go_range m) k"

definition go_len :: "('k, 'v) gomap \<Rightarrow> nat" where
  "go_len m = length (go_range m)"

definition go_delete :: "'k \<Rightarrow> ('k, 'v) gomap \<Rightarrow> ('k, 'v) gomap" where
  "go_delete k m = map_option (AList.delete k) m"

text \<open>\<open>m[k] = v\<close>; the outer \<open>None\<close> is the panic of an assignment to an entry in a nil map.\<close>

definition go_store :: "'k \<Rightarrow> 'v \<Rightarrow> ('k, 'v) gomap \<Rightarrow> ('k, 'v) gomap option" where
  "go_store k v m = (case m of None \<Rightarrow> None | Some al \<Rightarrow> Some (Some (AList.update k v al)))"

subsection \<open>Data model\<close>

text \<open>
  Modelled from the spec: the types of other packages that this file uses
  (\<^verbatim>\<open>resource.Key\<close>, \<^verbatim>\<open>netip.Addr\<close>, \<^verbatim>\<open>netip.Prefix\<close>, \<^verbatim>\<open>types.Family\<close>,
  \<^verbatim>\<open>types.Path\<close>, \<^verbatim>\<open>types.RoutePolicy\<close>, \<^verbatim>\<open>v2.BGPAdvertisement\<close>,
  \<^verbatim>\<open>v2alpha1.CiliumPodIPPool\<close>, \<^verbatim>\<open>v2.CiliumNode\<close>, \<^verbatim>\<open>v2.CiliumBGPNodeInstance\<close>,
  \<^verbatim>\<open>instance.BGPInstance\<close>, \<^verbatim>\<open>ReconcileParams\<close>, the pool store) are declared
  outside it. Each is given the fields that this file reads or writes, named as here and
  as in the data model of the specification.
\<close>

text \<open>\<^verbatim>\<open>resource.Key\<close>: the (name, namespace) identity of a pool.\<close>

datatype Key = Key (key_Name: string) (key_Namespace: string)

text \<open>\<^verbatim>\<open>netip.Addr\<close> and \<^verbatim>\<open>netip.Prefix\<close>, as far as the reconciler looks at them.\<close>

datatype Addr = Addr4 nat | Addr6 nat

fun Is4 :: "Addr \<Rightarrow> bool" where
  "Is4 (Addr4 _) = True"
| "Is4 (Addr6 _) = False"

fun Is6 :: "Addr \<Rightarrow> bool" where
  "Is6 (Addr4 _) = False"
| "Is6 (Addr6 _) = True"

datatype Prefix = Prefix (prefix_Addr: Addr) (prefix_Bits: nat)

text \<open>Address families: the agent's \<^verbatim>\<open>types.Family\<close> and the API's \<^verbatim>\<open>v2.CiliumBGPFamily\<close>.\<close>

datatype Afi = AfiUnknown | AfiIPv4 | AfiIPv6 | AfiL2VPN | AfiLS | AfiOpaque

datatype Safi = SafiUnknown | SafiUnicast | SafiMulticast | SafiOther nat

datatype Family = Family (fam_Afi: Afi) (fam_Safi: Safi)

datatype CiliumBGPFamily = CiliumBGPFamily (bgpfam_Afi: string) (bgpfam_Safi: string)

text \<open>
  \<^verbatim>\<open>types.Path\<close> with the two fields the reconciler sets: the prefix given to
  \<^verbatim>\<open>NewPathForPrefix\<close> and the family assigned afterwards.
\<close>

datatype Path = Path (path_NLRI: Prefix) (path_Family: Family)

type_synonym PathMap = "(Prefix, Path) gomap"
type_synonym AFPathsMap = "(Family, PathMap) gomap"
type_synonym ResourceAFPathsMap = "(Key, AFPathsMap) gomap"

text \<open>Advertisements (\<^verbatim>\<open>v2.BGPAdvertisement\<close>) and their label selectors.\<close>

datatype AdvertType =
  BGPPodCIDRAdvert | BGPCiliumPodIPPoolAdvert | BGPServiceAdvert | BGPInterfaceAdvert

type_synonym LabelSet = "string \<rightharpoonup> string"

datatype LabelSelector =
  LabelSelector (MatchLabels: "(string \<times> string) list")
                (MatchExpressions: "(string \<times> string \<times> string list) list")

datatype BGPAdvertisement =
  BGPAdvertisement (AdvertisementType: AdvertType) (Selector: "LabelSelector option")
                   (Attributes: "string list")

datatype PeerID = PeerID (peer_Name: string) (peer_Address: string)

type_synonym PeerFamilyAdvertisements = "(CiliumBGPFamily \<times> BGPAdvertisement list) list"
type_synonym PeerAdvertisements = "(PeerID \<times> PeerFamilyAdvertisements) list"

text \<open>
  \<^verbatim>\<open>types.RoutePolicy\<close>. The reconciler reads only its name; the rest is what
  \<^verbatim>\<open>CreatePolicy\<close> is given: the peer, the prefix matches and the advertisement.
\<close>

datatype RoutePolicyPrefixMatch =
  RoutePolicyPrefixMatch (CIDR: Prefix) (PrefixLenMin: int) (PrefixLenMax: int)

type_synonym PolicyPrefixMatchList = "RoutePolicyPrefixMatch list"

datatype RoutePolicy =
  RoutePolicy (policy_Name: string) (policy_Peer: Addr)
              (policy_V4: PolicyPrefixMatchList) (policy_V6: PolicyPrefixMatchList)
              (policy_Advert: BGPAdvertisement)

type_synonym RoutePolicyMap = "(string, RoutePolicy) gomap"
type_synonym ResourceRoutePolicyMap = "(Key, RoutePolicyMap) gomap"

text \<open>
  \<^verbatim>\<open>v2alpha1.CiliumPodIPPool\<close>: name, namespace, the per-family mask sizes, and the
  label map, which is a reference into a heap of map objects (\<open>None\<close> is a nil map).
\<close>

type_synonym addr = nat
type_synonym label_heap = "LabelSet list"

datatype CiliumPodIPPool =
  CiliumPodIPPool (pool_Name: string) (pool_Namespace: string) (pool_Labels: "addr option")
                  (pool_IPv4_MaskSize: nat) (pool_IPv6_MaskSize: nat)

text \<open>The local node: \<^verbatim>\<open>Spec.IPAM.Pools.Allocated\<close>, each pool with its CIDR strings.\<close>

datatype IPAMPoolAllocation = IPAMPoolAllocation (alloc_Pool: string) (alloc_CIDRs: "string list")

datatype CiliumNode = CiliumNode (node_Allocated: "IPAMPoolAllocation list")

datatype CiliumBGPNodeInstance = CiliumBGPNodeInstance (config_Name: string) (config_Peers: "PeerID list")

text \<open>
  \<^verbatim>\<open>instance.BGPInstance\<close>. The state behind its \<^verbatim>\<open>Router\<close> handle is passed
  to and returned by the functions that reach the router.
\<close>

datatype BGPInstance = BGPInstance (instance_Name: string)

record ReconcileParams =
  param_BGPInstance :: "BGPInstance option"
  param_DesiredConfig :: "CiliumBGPNodeInstance option"
  param_CiliumNode :: "CiliumNode option"

text \<open>\<^verbatim>\<open>store.BGPCPResourceStore[*CiliumPodIPPool]\<close>: the two calls the reconciler makes.\<close>

record BGPCPResourceStore =
  GetByKey :: "Key \<Rightarrow> error + CiliumPodIPPool option"
  List :: "error + CiliumPodIPPool list"

record PodIPPoolReconcilerMetadata =
  PoolAFPaths :: ResourceAFPathsMap
  PoolRoutePolicies :: ResourceRoutePolicyMap

record PodIPPoolReconciler =
  peerAdvert :: "CiliumBGPNodeInstance option \<Rightarrow> AdvertType \<Rightarrow> error + PeerAdvertisements"
  poolStore :: BGPCPResourceStore
  metadata :: "string \<rightharpoonup> PodIPPoolReconcilerMetadata"

subsection \<open>Lifecycle: Init and Cleanup\<close>

text \<open>\<^verbatim>\<open>PodIPPoolReconcilerName\<close> is declared outside this file; it is a parameter.\<close>

definition Init :: "string \<Rightarrow> PodIPPoolReconciler \<Rightarrow> BGPInstance option
    \<Rightarrow> error option \<times> PodIPPoolReconciler" where
  "Init reconcilerName r i =
     (case i of
        None \<Rightarrow>
          (Some (ErrMsg (''BUG: '' @ reconcilerName @
                         '' reconciler initialization with nil BGPInstance'')), r)
      | Some inst \<Rightarrow>
          (None, r\<lparr>metadata := (metadata r)(instance_Name inst \<mapsto>
                     \<lparr>PoolAFPaths = go_make, PoolRoutePolicies = go_make\<rparr>)\<rparr>))"

definition Cleanup :: "PodIPPoolReconciler \<Rightarrow> BGPInstance option \<Rightarrow> PodIPPoolReconciler" where
  "Cleanup r i =
     (case i of
        None \<Rightarrow> r
      | Some inst \<Rightarrow> r\<lparr>metadata := (metadata r)(instance_Name inst := None)\<rparr>)"

text \<open>\<^verbatim>\<open>getMetadata\<close>: a missing instance reads as the zero value, two nil maps.\<close>

definition getMetadata :: "PodIPPoolReconciler \<Rightarrow> BGPInstance \<Rightarrow> PodIPPoolReconcilerMetadata" where
  "getMetadata r i =
     (case metadata r (instance_Name i) of
        None \<Rightarrow> \<lparr>PoolAFPaths = None, PoolRoutePolicies = None\<rparr>
      | Some md \<Rightarrow> md)"

definition setMetadata :: "PodIPPoolReconciler \<Rightarrow> BGPInstance \<Rightarrow> PodIPPoolReconcilerMetadata
    \<Rightarrow> PodIPPoolReconciler" where
  "setMetadata r i md = r\<lparr>metadata := (metadata r)(instance_Name i \<mapsto> md)\<rparr>"

subsection \<open>Collaborators outside this file\<close>

text \<open>
  The functions the reconciler calls and this file does not define are parameters: the
  parsers of the standard library, the label selector conversion, the helpers of the
  package (\<^verbatim>\<open>ToAgentFamily\<close>, \<^verbatim>\<open>addPathToAFPathsMap\<close>, \<^verbatim>\<open>PolicyName\<close>,
  \<^verbatim>\<open>CreatePolicy\<close>) and the two diff/apply engines, which are the only code that
  talks to the router. An engine takes the log fields it is given (instance name, pool
  key), the desired and the current mapping and the router state of type \<open>'r\<close>, and
  returns the mapping it reports, its error and the new router state. \<open>pool_heap\<close> holds
  the label maps of the pool objects.
\<close>

record 'r env =
  ToPrefix :: "string \<Rightarrow> error + Prefix"
  ParseAddr :: "string \<Rightarrow> error + Addr"
  LabelSelectorAsSelector :: "LabelSelector option \<Rightarrow> error + (LabelSet \<Rightarrow> bool)"
  ToAgentFamily :: "CiliumBGPFamily \<Rightarrow> Family"
  addPathToAFPathsMap :: "(Family \<times> PathMap) list \<Rightarrow> Family \<Rightarrow> Path \<Rightarrow> (Family \<times> PathMap) list"
  AfiString :: "Afi \<Rightarrow> string"
  PolicyName :: "string \<Rightarrow> string \<Rightarrow> AdvertType \<Rightarrow> string \<Rightarrow> string"
  CreatePolicy :: "string \<Rightarrow> Addr \<Rightarrow> PolicyPrefixMatchList \<Rightarrow> PolicyPrefixMatchList
                     \<Rightarrow> BGPAdvertisement \<Rightarrow> error + RoutePolicy option"
  ReconcileRoutePolicies :: "string \<Rightarrow> Key \<Rightarrow> RoutePolicyMap \<Rightarrow> RoutePolicyMap \<Rightarrow> 'r
                     \<Rightarrow> (RoutePolicyMap \<times> error option) \<times> 'r"
  ReconcileResourceAFPaths :: "string \<Rightarrow> ResourceAFPathsMap \<Rightarrow> ResourceAFPathsMap \<Rightarrow> 'r
                     \<Rightarrow> (ResourceAFPathsMap \<times> error option) \<times> 'r"
  pool_heap :: label_heap

subsection \<open>The label set of a pool\<close>

definition podIPPoolNameLabel :: string where
  "podIPPoolNameLabel = ''io.cilium.podippool.name''"

definition podIPPoolNamespaceLabel :: string where
  "podIPPoolNamespaceLabel = ''io.cilium.podippool.namespace''"

text \<open>Allocation of a new map object, and \<open>m[k] = v\<close> on the map object at an address.\<close>

definition heap_alloc :: "label_heap \<Rightarrow> LabelSet \<Rightarrow> label_heap \<times> addr" where
  "heap_alloc h m = (h @ [m], length h)"

definition heap_store :: "label_heap \<Rightarrow> addr \<Rightarrow> string \<Rightarrow> string \<Rightarrow> label_heap" where
  "heap_store h a k v = h[a := (h ! a)(k \<mapsto> v)]"

text \<open>\<^verbatim>\<open>maps.Clone\<close>: nil for a nil map, otherwise a new map object with the same entries.\<close>

definition maps_Clone :: "label_heap \<Rightarrow> addr option \<Rightarrow> label_heap \<times> addr option" where
  "maps_Clone h m =
     (case m of
        None \<Rightarrow> (h, None)
      | Some a \<Rightarrow> (let (h', a') = heap_alloc h (h ! a) in (h', Some a')))"

definition podIPPoolLabelSet :: "label_heap \<Rightarrow> CiliumPodIPPool \<Rightarrow> label_heap \<times> addr" where
  "podIPPoolLabelSet h pool =
     (let (h1, cloned) = maps_Clone h (pool_Labels pool);
          (h2, poolLabels) = (case cloned of
                                None \<Rightarrow> heap_alloc h1 Map.empty
                              | Some a \<Rightarrow> (h1, a));
          h3 = heap_store h2 poolLabels podIPPoolNameLabel (pool_Name pool);
          h4 = heap_store h3 poolLabels podIPPoolNamespaceLabel (pool_Namespace pool)
      in (h4, poolLabels))"

text \<open>
  \<^verbatim>\<open>poolSelector.Matches(podIPPoolLabelSet(pool))\<close>: the selector reads the map object
  that \<open>podIPPoolLabelSet\<close> returns; that object is not reachable afterwards.
\<close>

definition selectorMatchesPool :: "(LabelSet \<Rightarrow> bool) \<Rightarrow> label_heap \<Rightarrow> CiliumPodIPPool \<Rightarrow> bool" where
  "selectorMatchesPool poolSelector h pool =
     (let (h', a) = podIPPoolLabelSet h pool in poolSelector (h' ! a))"

subsection \<open>The local pool map\<close>

datatype log_entry = LogInvalidCIDR error string

text \<open>
  The inner loop of \<open>populateLocalPools\<close>: the prefixes of the CIDR strings that parse, in
  their order, and one error log entry for each string that does not.
\<close>

fun parseCIDRs :: "'r env \<Rightarrow> string list \<Rightarrow> Prefix list \<times> log_entry list" where
  "parseCIDRs env [] = ([], [])"
| "parseCIDRs env (cidr # cidrs) =
     (let (prefixes, logs) = parseCIDRs env cidrs
      in case ToPrefix env cidr of
           Inr p \<Rightarrow> (p # prefixes, logs)
         | Inl err \<Rightarrow> (prefixes, LogInvalidCIDR err cidr # logs))"

type_synonym LocalPools = "string \<rightharpoonup> Prefix list"

fun populateLocalPools_loop :: "'r env \<Rightarrow> IPAMPoolAllocation list \<Rightarrow> LocalPools \<times> log_entry list
    \<Rightarrow> LocalPools \<times> log_entry list" where
  "populateLocalPools_loop env [] acc = acc"
| "populateLocalPools_loop env (pool # pools) (lp, logs) =
     (let (prefixes, logs') = parseCIDRs env (alloc_CIDRs pool)
      in populateLocalPools_loop env pools (lp(alloc_Pool pool \<mapsto> prefixes), logs @ logs'))"

text \<open>
  The result for a nil node is the nil map. The map is only read by key afterwards, so the
  nil map and the empty map are both \<open>Map.empty\<close>.
\<close>

definition populateLocalPools :: "'r env \<Rightarrow> CiliumNode option \<Rightarrow> LocalPools \<times> log_entry list" where
  "populateLocalPools env localNode =
     (case localNode of
        None \<Rightarrow> (Map.empty, [])
      | Some node \<Rightarrow> populateLocalPools_loop env (node_Allocated node) (Map.empty, []))"

subsection \<open>Desired paths and policies of one pool\<close>

text \<open>
  The three nested \<^verbatim>\<open>range\<close> loops over peers, families and advertisements visit these
  triples in this order; \<^verbatim>\<open>ToAgentFamily\<close> is applied once per family.
\<close>

definition advert_triples :: "'r env \<Rightarrow> PeerAdvertisements \<Rightarrow> (PeerID \<times> Family \<times> BGPAdvertisement) list" where
  "advert_triples env desiredPeerAdverts =
     concat (map (\<lambda>(peer, afAdverts).
       concat (map (\<lambda>(family, adverts).
         map (\<lambda>advert. (peer, ToAgentFamily env family, advert)) adverts) afAdverts))
       desiredPeerAdverts)"

text \<open>The innermost loop of \<open>getDesiredAFPaths\<close>: the paths of one advertisement.\<close>

definition addPrefixPaths :: "'r env \<Rightarrow> Family \<Rightarrow> Prefix list \<Rightarrow> (Family \<times> PathMap) list
    \<Rightarrow> (Family \<times> PathMap) list" where
  "addPrefixPaths env agentFamily prefixes m =
     foldl (\<lambda>m prefix.
        let path = Path prefix agentFamily;
            m1 = (if fam_Afi agentFamily = AfiIPv4 \<and> Is4 (prefix_Addr prefix)
                  then addPathToAFPathsMap env m agentFamily path else m)
        in (if fam_Afi agentFamily = AfiIPv6 \<and> Is6 (prefix_Addr prefix)
            then addPathToAFPathsMap env m1 agentFamily path else m1)) m prefixes"

fun getDesiredAFPaths_loop :: "'r env \<Rightarrow> CiliumPodIPPool \<Rightarrow> LocalPools
    \<Rightarrow> (PeerID \<times> Family \<times> BGPAdvertisement) list \<Rightarrow> (Family \<times> PathMap) list
    \<Rightarrow> error + (Family \<times> PathMap) list" where
  "getDesiredAFPaths_loop env pool lp [] desiredFamilyAdverts = Inr desiredFamilyAdverts"
| "getDesiredAFPaths_loop env pool lp ((peer, agentFamily, advert) # rest) desiredFamilyAdverts =
     (if AdvertisementType advert \<noteq> BGPCiliumPodIPPoolAdvert
      then getDesiredAFPaths_loop env pool lp rest desiredFamilyAdverts
      else (case LabelSelectorAsSelector env (Selector advert) of
              Inl err \<Rightarrow> Inl (ErrWrap ''failed to convert label selector'' err)
            | Inr poolSelector \<Rightarrow>
                (if \<not> selectorMatchesPool poolSelector (pool_heap env) pool
                 then getDesiredAFPaths_loop env pool lp rest desiredFamilyAdverts
                 else (case lp (pool_Name pool) of
                         None \<Rightarrow> getDesiredAFPaths_loop env pool lp rest desiredFamilyAdverts
                       | Some prefixes \<Rightarrow>
                           getDesiredAFPaths_loop env pool lp rest
                             (addPrefixPaths env agentFamily prefixes desiredFamilyAdverts)))))"

text \<open>The result map is made by the function, so it is never nil on success.\<close>

definition getDesiredAFPaths :: "'r env \<Rightarrow> CiliumPodIPPool \<Rightarrow> PeerAdvertisements \<Rightarrow> LocalPools
    \<Rightarrow> error + AFPathsMap" where
  "getDesiredAFPaths env pool desiredPeerAdverts lp =
     (case getDesiredAFPaths_loop env pool lp (advert_triples env desiredPeerAdverts) [] of
        Inl err \<Rightarrow> Inl err
      | Inr m \<Rightarrow> Inr (Some m))"

definition getPodIPPoolPolicy :: "'r env \<Rightarrow> PeerID \<Rightarrow> Family \<Rightarrow> CiliumPodIPPool \<Rightarrow> BGPAdvertisement
    \<Rightarrow> LocalPools \<Rightarrow> error + RoutePolicy option" where
  "getPodIPPoolPolicy env peer family pool advert lp =
     (if peer_Address peer = []
      then Inr None
      else (case ParseAddr env (peer_Address peer) of
             Inl err \<Rightarrow> Inl (ErrWrap ''failed to parse peer address'' err)
           | Inr peerAddr \<Rightarrow>
               (case LabelSelectorAsSelector env (Selector advert) of
                  Inl err \<Rightarrow> Inl (ErrWrap ''failed to convert label selector'' err)
                | Inr poolSelector \<Rightarrow>
                    if \<not> selectorMatchesPool poolSelector (pool_heap env) pool
                    then Inr None
                    else (case lp (pool_Name pool) of
                           None \<Rightarrow> Inr None
                         | Some prefixes \<Rightarrow>
                             (let v4Prefixes =
                                    map (\<lambda>prefix. RoutePolicyPrefixMatch prefix
                                           (int (pool_IPv4_MaskSize pool)) (int (pool_IPv4_MaskSize pool)))
                                      (filter (\<lambda>prefix. fam_Afi family = AfiIPv4 \<and> Is4 (prefix_Addr prefix))
                                         prefixes);
                                  v6Prefixes =
                                    map (\<lambda>prefix. RoutePolicyPrefixMatch prefix
                                           (int (pool_IPv6_MaskSize pool)) (int (pool_IPv6_MaskSize pool)))
                                      (filter (\<lambda>prefix. fam_Afi family = AfiIPv6 \<and> Is6 (prefix_Addr prefix))
                                         prefixes)
                              in if length v4Prefixes = 0 \<and> length v6Prefixes = 0
                                 then Inr None
                                 else CreatePolicy env
                                        (PolicyName env (peer_Name peer) (AfiString env (fam_Afi family))
                                           (AdvertisementType advert) (pool_Name pool))
                                        peerAddr v4Prefixes v6Prefixes advert)))))"

fun getPodIPPoolPolicies_loop :: "'r env \<Rightarrow> CiliumPodIPPool \<Rightarrow> LocalPools
    \<Rightarrow> (PeerID \<times> Family \<times> BGPAdvertisement) list \<Rightarrow> (string \<times> RoutePolicy) list
    \<Rightarrow> error + (string \<times> RoutePolicy) list" where
  "getPodIPPoolPolicies_loop env pool lp [] desiredRoutePolicies = Inr desiredRoutePolicies"
| "getPodIPPoolPolicies_loop env pool lp ((peer, fam, advert) # rest) desiredRoutePolicies =
     (case getPodIPPoolPolicy env peer fam pool advert lp of
        Inl err \<Rightarrow> Inl err
      | Inr None \<Rightarrow> getPodIPPoolPolicies_loop env pool lp rest desiredRoutePolicies
      | Inr (Some policy) \<Rightarrow>
          getPodIPPoolPolicies_loop env pool lp rest
            (AList.update (policy_Name policy) policy desiredRoutePolicies))"

definition getPodIPPoolPolicies :: "'r env \<Rightarrow> CiliumPodIPPool \<Rightarrow> PeerAdvertisements \<Rightarrow> LocalPools
    \<Rightarrow> error + RoutePolicyMap" where
  "getPodIPPoolPolicies env pool desiredPeerAdverts lp =
     (case getPodIPPoolPolicies_loop env pool lp (advert_triples env desiredPeerAdverts) [] of
        Inl err \<Rightarrow> Inl err
      | Inr m \<Rightarrow> Inr (Some m))"

subsection \<open>Desired mappings over all pools\<close>

text \<open>
  The first loop of \<open>getDesiredPoolAFPaths\<close>: every key of the retained mapping is looked
  up in the store; a store error ends the function, the uninitialized-store error joined
  with the abort sentinel; a key the store does not have is marked with a nil value.
\<close>

fun markDeletedAFPaths :: "BGPCPResourceStore \<Rightarrow> (Key \<times> AFPathsMap) list
    \<Rightarrow> (Key \<times> AFPathsMap) list \<Rightarrow> error + (Key \<times> AFPathsMap) list" where
  "markDeletedAFPaths st [] desiredPoolAFPaths = Inr desiredPoolAFPaths"
| "markDeletedAFPaths st ((poolKey, _) # rest) desiredPoolAFPaths =
     (case GetByKey st poolKey of
        Inl err \<Rightarrow>
          Inl (if errors_Is err ErrStoreUninitialized then ErrJoin [err, ErrAbortReconcile] else err)
      | Inr None \<Rightarrow> markDeletedAFPaths st rest (AList.update poolKey None desiredPoolAFPaths)
      | Inr (Some _) \<Rightarrow> markDeletedAFPaths st rest desiredPoolAFPaths)"

fun poolsAFPaths_loop :: "'r env \<Rightarrow> PeerAdvertisements \<Rightarrow> LocalPools \<Rightarrow> CiliumPodIPPool list
    \<Rightarrow> (Key \<times> AFPathsMap) list \<Rightarrow> error + (Key \<times> AFPathsMap) list" where
  "poolsAFPaths_loop env adverts lp [] desiredPoolAFPaths = Inr desiredPoolAFPaths"
| "poolsAFPaths_loop env adverts lp (pool # pools) desiredPoolAFPaths =
     (case getDesiredAFPaths env pool adverts lp of
        Inl err \<Rightarrow> Inl err
      | Inr desiredPaths \<Rightarrow>
          poolsAFPaths_loop env adverts lp pools
            (AList.update (Key (pool_Name pool) (pool_Namespace pool)) desiredPaths
               desiredPoolAFPaths))"

definition getDesiredPoolAFPaths :: "'r env \<Rightarrow> PodIPPoolReconciler \<Rightarrow> BGPInstance
    \<Rightarrow> PeerAdvertisements \<Rightarrow> LocalPools \<Rightarrow> error + ResourceAFPathsMap" where
  "getDesiredPoolAFPaths env r i desiredFamilyAdverts lp =
     (case markDeletedAFPaths (poolStore r) (go_range (PoolAFPaths (getMetadata r i))) [] of
        Inl err \<Rightarrow> Inl err
      | Inr marked \<Rightarrow>
          (case List (poolStore r) of
             Inl err \<Rightarrow>
               Inl (if errors_Is err ErrStoreUninitialized then ErrJoin [err, ErrAbortReconcile]
                    else err)
           | Inr pools \<Rightarrow>
               (case poolsAFPaths_loop env desiredFamilyAdverts lp pools marked of
                  Inl err \<Rightarrow> Inl err
                | Inr desiredPoolAFPaths \<Rightarrow> Inr (Some desiredPoolAFPaths))))"

text \<open>The same two loops for route policies; here a store error is returned as it is.\<close>

fun markDeletedRoutePolicies :: "BGPCPResourceStore \<Rightarrow> (Key \<times> RoutePolicyMap) list
    \<Rightarrow> (Key \<times> RoutePolicyMap) list \<Rightarrow> error + (Key \<times> RoutePolicyMap) list" where
  "markDeletedRoutePolicies st [] desired = Inr desired"
| "markDeletedRoutePolicies st ((poolKey, _) # rest) desired =
     (case GetByKey st poolKey of
        Inl err \<Rightarrow> Inl err
      | Inr None \<Rightarrow> markDeletedRoutePolicies st rest (AList.update poolKey None desired)
      | Inr (Some _) \<Rightarrow> markDeletedRoutePolicies st rest desired)"

fun poolsRoutePolicies_loop :: "'r env \<Rightarrow> PeerAdvertisements \<Rightarrow> LocalPools \<Rightarrow> CiliumPodIPPool list
    \<Rightarrow> (Key \<times> RoutePolicyMap) list \<Rightarrow> error + (Key \<times> RoutePolicyMap) list" where
  "poolsRoutePolicies_loop env adverts lp [] desired = Inr desired"
| "poolsRoutePolicies_loop env adverts lp (pool # pools) desired =
     (case getPodIPPoolPolicies env pool adverts lp of
        Inl err \<Rightarrow> Inl err
      | Inr desiredPoolRoutePolicies \<Rightarrow>
          poolsRoutePolicies_loop env adverts lp pools
            (AList.update (Key (pool_Name pool) (pool_Namespace pool)) desiredPoolRoutePolicies
               desired))"

definition getDesiredPodIPPoolRoutePolicies :: "'r env \<Rightarrow> PodIPPoolReconciler \<Rightarrow> BGPInstance
    \<Rightarrow> PeerAdvertisements \<Rightarrow> LocalPools \<Rightarrow> error + ResourceRoutePolicyMap" where
  "getDesiredPodIPPoolRoutePolicies env r i desiredPeerAdverts lp =
     (case markDeletedRoutePolicies (poolStore r)
             (go_range (PoolRoutePolicies (getMetadata r i))) [] of
        Inl err \<Rightarrow> Inl err
      | Inr marked \<Rightarrow>
          (case List (poolStore r) of
             Inl err \<Rightarrow> Inl err
           | Inr pools \<Rightarrow>
               (case poolsRoutePolicies_loop env desiredPeerAdverts lp pools marked of
                  Inl err \<Rightarrow> Inl err
                | Inr desired \<Rightarrow> Inr (Some desired))))"

subsection \<open>Diff and apply\<close>

text \<open>
  The loop of \<open>reconcileRoutePolicies\<close> over the desired mapping. Its state is the error
  joined so far, the retained \<open>PoolRoutePolicies\<close> map and the router state. The result
  \<open>None\<close> is the panic of storing into a nil retained map.
\<close>

fun reconcileRoutePolicies_loop :: "'r env \<Rightarrow> string \<Rightarrow> (Key \<times> RoutePolicyMap) list
    \<Rightarrow> error option \<times> ResourceRoutePolicyMap \<times> 'r
    \<Rightarrow> (error option \<times> ResourceRoutePolicyMap \<times> 'r) option" where
  "reconcileRoutePolicies_loop env nm [] st = Some st"
| "reconcileRoutePolicies_loop env nm ((poolKey, desiredRPs) # rest) (err, retained, rt) =
     (let (currentRPs, exists) = (case go_lookup retained poolKey of
                                    None \<Rightarrow> (None, False)
                                  | Some c \<Rightarrow> (c, True))
      in if \<not> exists \<and> go_len desiredRPs = 0
         then reconcileRoutePolicies_loop env nm rest (err, retained, rt)
         else
           (let ((updatedRPs, rErr), rt') =
                  ReconcileRoutePolicies env nm poolKey desiredRPs currentRPs rt
            in if rErr = None \<and> go_len desiredRPs = 0
               then reconcileRoutePolicies_loop env nm rest
                      (errors_Join err rErr, go_delete poolKey retained, rt')
               else (case go_store poolKey updatedRPs retained of
                       None \<Rightarrow> None
                     | Some retained' \<Rightarrow>
                         reconcileRoutePolicies_loop env nm rest
                           (errors_Join err rErr, retained', rt'))))"

definition reconcileRoutePolicies :: "'r env \<Rightarrow> PodIPPoolReconciler \<Rightarrow> BGPInstance \<Rightarrow> string
    \<Rightarrow> PeerAdvertisements \<Rightarrow> LocalPools \<Rightarrow> 'r
    \<Rightarrow> (error option \<times> PodIPPoolReconciler \<times> 'r) option" where
  "reconcileRoutePolicies env r i nm desiredPeerAdverts lp rt =
     (case getDesiredPodIPPoolRoutePolicies env r i desiredPeerAdverts lp of
        Inl err \<Rightarrow> Some (Some err, r, rt)
      | Inr desiredPoolsRPs \<Rightarrow>
          (let md = getMetadata r i
           in case reconcileRoutePolicies_loop env nm (go_range desiredPoolsRPs)
                     (None, PoolRoutePolicies md, rt) of
                None \<Rightarrow> None
              | Some (err, retained, rt') \<Rightarrow>
                  Some (err, setMetadata r i (md\<lparr>PoolRoutePolicies := retained\<rparr>), rt')))"

definition reconcilePaths :: "'r env \<Rightarrow> PodIPPoolReconciler \<Rightarrow> BGPInstance \<Rightarrow> string
    \<Rightarrow> PeerAdvertisements \<Rightarrow> LocalPools \<Rightarrow> 'r
    \<Rightarrow> error option \<times> PodIPPoolReconciler \<times> 'r" where
  "reconcilePaths env r i nm desiredPeerAdverts lp rt =
     (case getDesiredPoolAFPaths env r i desiredPeerAdverts lp of
        Inl err \<Rightarrow> (Some err, r, rt)
      | Inr poolsAFPaths \<Rightarrow>
          (let md = getMetadata r i;
               ((updated, err), rt') =
                  ReconcileResourceAFPaths env nm poolsAFPaths (PoolAFPaths md) rt
           in (err, setMetadata r i (md\<lparr>PoolAFPaths := updated\<rparr>), rt')))"

subsection \<open>Reconcile\<close>

text \<open>
  Modelled from the spec: \<^verbatim>\<open>ValidateParams\<close> is defined outside this file. The
  parameters are validated before use, and reconciliation aborts if a required field (the
  instance, the desired configuration, the local node) is absent.
\<close>

definition ValidateParams :: "ReconcileParams \<Rightarrow> error option" where
  "ValidateParams p =
     (if param_DesiredConfig p = None
      then Some (ErrMsg ''BUG: reconciler called with nil CiliumBGPNodeConfig'')
      else if param_CiliumNode p = None
      then Some (ErrMsg ''BUG: reconciler called with nil CiliumNode'')
      else if param_BGPInstance p = None
      then Some (ErrMsg ''BUG: reconciler called with nil BGPInstance'')
      else None)"

text \<open>
  \<open>Reconcile\<close> takes the router state behind \<open>p.BGPInstance.Router\<close> and returns the
  error, the reconciler and the router state after the call; \<open>None\<close> is a panic. After a
  successful validation the instance and the configuration are not nil; the branch for a
  nil pointer is the panic of dereferencing it.
\<close>

definition Reconcile :: "'r env \<Rightarrow> PodIPPoolReconciler \<Rightarrow> ReconcileParams \<Rightarrow> 'r
    \<Rightarrow> (error option \<times> PodIPPoolReconciler \<times> 'r) option" where
  "Reconcile env r p rt =
     (case ValidateParams p of
        Some err \<Rightarrow> Some (Some err, r, rt)
      | None \<Rightarrow>
          (let (lp, logs) = populateLocalPools env (param_CiliumNode p)
           in case peerAdvert r (param_DesiredConfig p) BGPCiliumPodIPPoolAdvert of
                Inl err \<Rightarrow> Some (Some err, r, rt)
              | Inr desiredPeerAdverts \<Rightarrow>
                  (case (param_BGPInstance p, param_DesiredConfig p) of
                     (Some i, Some cfg) \<Rightarrow>
                       (case reconcileRoutePolicies env r i (config_Name cfg)
                               desiredPeerAdverts lp rt of
                          None \<Rightarrow> None
                        | Some (Some err, r', rt') \<Rightarrow> Some (Some err, r', rt')
                        | Some (None, r', rt') \<Rightarrow>
                            Some (reconcilePaths env r' i (config_Name cfg)
                                    desiredPeerAdverts lp rt'))
                   | _ \<Rightarrow> None)))"

subsection \<open>The diff/apply engines, from the spec\<close>

text \<open>
  Modelled from the spec: the router abstraction behind \<^verbatim>\<open>BGPInstance.Router\<close> is
  defined outside this file. Section 4.3 lets an engine "compute the sub-diff and apply it
  through the router"; the router is the two operations that push such a sub-diff (from
  the current to the desired value of one resource key) and report an error or none.
\<close>

record 'r Router =
  PushPolicies :: "RoutePolicyMap \<Rightarrow> RoutePolicyMap \<Rightarrow> 'r \<Rightarrow> error option \<times> 'r"
  PushPaths :: "AFPathsMap \<Rightarrow> AFPathsMap \<Rightarrow> 'r \<Rightarrow> error option \<times> 'r"

text \<open>
  Modelled from the spec: the comparison by content that the two engines make between a
  desired and a current map is defined outside this file. Two Go maps have the same
  content when they hold the same entries, in any order.
\<close>

definition same_content :: "('k, 'v) gomap \<Rightarrow> ('k, 'v) gomap \<Rightarrow> bool" where
  "same_content a b = (set (go_range a) = set (go_range b))"

text \<open>
  Modelled from the spec: \<^verbatim>\<open>ReconcileRoutePolicies\<close> is defined outside this file.
  Section 6: "reconcile route policies" takes the desired and the current named policy
  sets and returns the updated current set or an error. Section 4.3: unchanged (desired
  equals current by content) skips the router call entirely; otherwise the sub-diff is
  applied through the router and the retained value is advanced only if the apply
  succeeds.
\<close>

definition spec_ReconcileRoutePolicies :: "'r Router \<Rightarrow> string \<Rightarrow> Key \<Rightarrow> RoutePolicyMap
    \<Rightarrow> RoutePolicyMap \<Rightarrow> 'r \<Rightarrow> (RoutePolicyMap \<times> error option) \<times> 'r" where
  "spec_ReconcileRoutePolicies router nm poolKey desired current rt =
     (if same_content desired current
      then ((current, None), rt)
      else (case PushPolicies router desired current rt of
              (None, rt') \<Rightarrow> ((desired, None), rt')
            | (Some err, rt') \<Rightarrow> ((current, Some err), rt')))"

text \<open>
  Modelled from the spec: \<^verbatim>\<open>ReconcileResourceAFPaths\<close> is defined outside this file.
  Section 4.3: the engine for paths is structurally identical to the one for route
  policies. For a resource key of the desired mapping: a nil or empty desired value
  withdraws everything applied for the key and removes the key from the retained state;
  a desired value equal by content to the current one skips the router call; any other
  desired value is applied through the router, and the retained value is advanced only if
  the apply succeeds. The errors of the keys are joined. A key that the desired mapping
  does not mention is left as it is (section 4.2: an omitted key is "unchanged, not
  recomputed", a nil value is "must withdraw"), as in the loop of \<open>reconcileRoutePolicies\<close>.
\<close>

fun spec_ReconcileResourceAFPaths_loop :: "'r Router \<Rightarrow> (Key \<times> AFPathsMap) list
    \<Rightarrow> error option \<times> (Key \<times> AFPathsMap) list \<times> 'r
    \<Rightarrow> error option \<times> (Key \<times> AFPathsMap) list \<times> 'r" where
  "spec_ReconcileResourceAFPaths_loop router [] st = st"
| "spec_ReconcileResourceAFPaths_loop router ((resKey, desired) # rest) (err, running, rt) =
     (case map_of running resKey of
        None \<Rightarrow>
          (if go_len desired = 0
           then spec_ReconcileResourceAFPaths_loop router rest (err, running, rt)
           else (case PushPaths router desired None rt of
                   (None, rt') \<Rightarrow>
                     spec_ReconcileResourceAFPaths_loop router rest
                       (err, AList.update resKey desired running, rt')
                 | (Some e, rt') \<Rightarrow>
                     spec_ReconcileResourceAFPaths_loop router rest
                       (errors_Join err (Some e), running, rt')))
      | Some current \<Rightarrow>
          (if go_len desired = 0
           then (case PushPaths router None current rt of
                   (None, rt') \<Rightarrow>
                     spec_ReconcileResourceAFPaths_loop router rest
                       (err, AList.delete resKey running, rt')
                 | (Some e, rt') \<Rightarrow>
                     spec_ReconcileResourceAFPaths_loop router rest
                       (errors_Join err (Some e), running, rt'))
           else if same_content desired current
           then spec_ReconcileResourceAFPaths_loop router rest (err, running, rt)
           else (case PushPaths router desired current rt of
                   (None, rt') \<Rightarrow>
                     spec_ReconcileResourceAFPaths_loop router rest
                       (err, AList.update resKey desired running, rt')
                 | (Some e, rt') \<Rightarrow>
                     spec_ReconcileResourceAFPaths_loop router rest
                       (errors_Join err (Some e), running, rt'))))"

definition spec_ReconcileResourceAFPaths :: "'r Router \<Rightarrow> string \<Rightarrow> ResourceAFPathsMap
    \<Rightarrow> ResourceAFPathsMap \<Rightarrow> 'r \<Rightarrow> (ResourceAFPathsMap \<times> error option) \<times> 'r" where
  "spec_ReconcileResourceAFPaths router nm desired current rt =
     (case spec_ReconcileResourceAFPaths_loop router (go_range desired)
             (None, go_range current, rt) of
        (err, running, rt') \<Rightarrow> ((Some running, err), rt'))"

subsection \<open>An example cluster\<close>

text \<open>
  Concrete collaborators, pools, node and advertisements on which the definitions above
  are evaluated. The parsers know the strings of the example; the selector conversion
  follows the label selectors of the API (a nil selector matches nothing, an empty one
  everything, an unknown operator is an error).
\<close>

definition example_ToPrefix :: "string \<Rightarrow> error + Prefix" where
  "example_ToPrefix s =
     (if s = ''10.0.0.0/24'' then Inr (Prefix (Addr4 167772160) 24)
      else if s = ''10.0.1.0/24'' then Inr (Prefix (Addr4 167772416) 24)
      else if s = ''fd00::/64'' then Inr (Prefix (Addr6 (64768 * 2 ^ 112)) 64)
      else Inl (ErrMsg ''netip.ParsePrefix: no slash''))"

definition example_ParseAddr :: "string \<Rightarrow> error + Addr" where
  "example_ParseAddr s =
     (if s = ''192.0.2.1'' then Inr (Addr4 3221225985)
      else if s = ''192.0.2.2'' then Inr (Addr4 3221225986)
      else Inl (ErrMsg ''ParseAddr: unable to parse IP''))"

definition example_requirement :: "LabelSet \<Rightarrow> string \<times> string \<times> string list \<Rightarrow> bool" where
  "example_requirement ls = (\<lambda>(k, oper, vs).
     if oper = ''In'' then (case ls k of None \<Rightarrow> False | Some v \<Rightarrow> v \<in> set vs)
     else if oper = ''NotIn'' then (case ls k of None \<Rightarrow> True | Some v \<Rightarrow> v \<notin> set vs)
     else if oper = ''Exists'' then ls k \<noteq> None
     else ls k = None)"

definition example_LabelSelectorAsSelector :: "LabelSelector option \<Rightarrow> error + (LabelSet \<Rightarrow> bool)" where
  "example_LabelSelectorAsSelector sel =
     (case sel of
        None \<Rightarrow> Inr (\<lambda>ls. False)
      | Some s \<Rightarrow>
          if list_all (\<lambda>(k, oper, vs). oper \<in> set [''In'', ''NotIn'', ''Exists'', ''DoesNotExist''])
               (MatchExpressions s)
          then Inr (\<lambda>ls. list_all (\<lambda>(k, v). ls k = Some v) (MatchLabels s)
                        \<and> list_all (example_requirement ls) (MatchExpressions s))
          else Inl (ErrMsg ''not a valid label selector operator''))"

definition example_ToAgentFamily :: "CiliumBGPFamily \<Rightarrow> Family" where
  "example_ToAgentFamily f =
     Family (if bgpfam_Afi f = ''ipv4'' then AfiIPv4
             else if bgpfam_Afi f = ''ipv6'' then AfiIPv6 else AfiUnknown)
            (if bgpfam_Safi f = ''unicast'' then SafiUnicast else SafiUnknown)"

definition example_addPathToAFPathsMap :: "(Family \<times> PathMap) list \<Rightarrow> Family \<Rightarrow> Path
    \<Rightarrow> (Family \<times> PathMap) list" where
  "example_addPathToAFPathsMap m fam path =
     AList.update fam
       (Some (AList.update (path_NLRI path) path
                (case map_of m fam of Some (Some pm) \<Rightarrow> pm | _ \<Rightarrow> []))) m"

definition example_AfiString :: "Afi \<Rightarrow> string" where
  "example_AfiString a = (if a = AfiIPv4 then ''ipv4'' else if a = AfiIPv6 then ''ipv6'' else ''unknown'')"

definition example_PolicyName :: "string \<Rightarrow> string \<Rightarrow> AdvertType \<Rightarrow> string \<Rightarrow> string" where
  "example_PolicyName peer fam advertType poolName = peer @ ''-'' @ fam @ ''-PodIPPool-'' @ poolName"

definition example_CreatePolicy :: "string \<Rightarrow> Addr \<Rightarrow> PolicyPrefixMatchList \<Rightarrow> PolicyPrefixMatchList
    \<Rightarrow> BGPAdvertisement \<Rightarrow> error + RoutePolicy option" where
  "example_CreatePolicy name peerAddr v4 v6 advert = Inr (Some (RoutePolicy name peerAddr v4 v6 advert))"

text \<open>
  A router that counts the pushes it receives and rejects every push of policies that
  contains a policy with one of the given names.
\<close>

definition example_router :: "string list \<Rightarrow> nat Router" where
  "example_router rejected =
     \<lparr>PushPolicies = (\<lambda>desired current n.
        (if list_ex (\<lambda>(name, policy). name \<in> set rejected) (go_range desired)
         then Some (ErrMsg ''router: policy rejected'') else None, Suc n)),
      PushPaths = (\<lambda>desired current n. (None, Suc n))\<rparr>"

definition example_heap :: label_heap where
  "example_heap = [[''team'' \<mapsto> ''a''], [''team'' \<mapsto> ''b'']]"

definition example_env :: "string list \<Rightarrow> nat env" where
  "example_env rejected =
     \<lparr>ToPrefix = example_ToPrefix,
      ParseAddr = example_ParseAddr,
      LabelSelectorAsSelector = example_LabelSelectorAsSelector,
      ToAgentFamily = example_ToAgentFamily,
      addPathToAFPathsMap = example_addPathToAFPathsMap,
      AfiString = example_AfiString,
      PolicyName = example_PolicyName,
      CreatePolicy = example_CreatePolicy,
      ReconcileRoutePolicies = spec_ReconcileRoutePolicies (example_router rejected),
      ReconcileResourceAFPaths = spec_ReconcileResourceAFPaths (example_router rejected),
      pool_heap = example_heap\<rparr>"

definition poolA :: CiliumPodIPPool where
  "poolA = CiliumPodIPPool ''pool-a'' ''ns'' (Some 0) 24 64"

definition poolB :: CiliumPodIPPool where
  "poolB = CiliumPodIPPool ''pool-b'' ''ns'' (Some 1) 24 64"

definition poolC :: CiliumPodIPPool where
  "poolC = CiliumPodIPPool ''pool-c'' ''ns'' None 24 64"

definition pool_key :: "CiliumPodIPPool \<Rightarrow> Key" where
  "pool_key pool = Key (pool_Name pool) (pool_Namespace pool)"

text \<open>A store that holds the given pools, and a store that has not synced yet.\<close>

definition example_store :: "CiliumPodIPPool list \<Rightarrow> BGPCPResourceStore" where
  "example_store pools =
     \<lparr>GetByKey = (\<lambda>k. Inr (find (\<lambda>pool. pool_key pool = k) pools)), List = Inr pools\<rparr>"

definition uninitialized_store :: BGPCPResourceStore where
  "uninitialized_store =
     \<lparr>GetByKey = (\<lambda>k. Inl ErrStoreUninitialized), List = Inl ErrStoreUninitialized\<rparr>"

definition example_node :: CiliumNode where
  "example_node =
     CiliumNode [IPAMPoolAllocation ''pool-a'' [''10.0.0.0/24'', ''not-a-cidr'', ''fd00::/64''],
                 IPAMPoolAllocation ''pool-b'' [''10.0.1.0/24'']]"

definition advertTeam :: "string \<Rightarrow> BGPAdvertisement" where
  "advertTeam t = BGPAdvertisement BGPCiliumPodIPPoolAdvert (Some (LabelSelector [(''team'', t)] [])) []"

definition advertBadSelector :: BGPAdvertisement where
  "advertBadSelector =
     BGPAdvertisement BGPCiliumPodIPPoolAdvert
       (Some (LabelSelector [] [(''team'', ''Matches'', [''a''])])) []"

definition example_adverts :: "string \<Rightarrow> BGPAdvertisement list \<Rightarrow> PeerAdvertisements" where
  "example_adverts peerAddress adverts =
     [(PeerID ''peer0'' peerAddress, [(CiliumBGPFamily ''ipv4'' ''unicast'', adverts)])]"

definition example_instance :: BGPInstance where
  "example_instance = BGPInstance ''instance-65001''"

definition example_reconciler :: "PeerAdvertisements \<Rightarrow> BGPCPResourceStore
    \<Rightarrow> PodIPPoolReconcilerMetadata option \<Rightarrow> PodIPPoolReconciler" where
  "example_reconciler adverts st md =
     \<lparr>peerAdvert = (\<lambda>cfg advertType. Inr adverts), poolStore = st,
      metadata = (\<lambda>n. if n = ''instance-65001'' then md else None)\<rparr>"

definition example_params :: ReconcileParams where
  "example_params =
     \<lparr>param_BGPInstance = Some example_instance,
      param_DesiredConfig = Some (CiliumBGPNodeInstance ''instance-65001'' [PeerID ''peer0'' ''192.0.2.1'']),
      param_CiliumNode = Some example_node\<rparr>"

subsection \<open>Pools that match no advertisement\<close>

text \<open>
  No advertisement of the desired peer advertisements has a label selector that converts
  and matches the label set of the pool.
\<close>

definition matchesNoAdvertisement :: "'r env \<Rightarrow> CiliumPodIPPool \<Rightarrow> PeerAdvertisements \<Rightarrow> bool" where
  "matchesNoAdvertisement env pool adverts =
     list_all (\<lambda>t. case LabelSelectorAsSelector env (Selector (snd (snd t))) of
                      Inl err \<Rightarrow> True
                    | Inr poolSelector \<Rightarrow> \<not> selectorMatchesPool poolSelector (pool_heap env) pool)
       (advert_triples env adverts)"

subsection \<open>Selectors that do not convert\<close>


subsection \<open>The engine calls of the route policy pass\<close>

text \<open>
  What \<open>reconcileRoutePolicies\<close> reads for a key of the retained map (the zero value,
  a nil policy map, when the key has no entry), the entries of the desired mapping for
  which it does not call the engine, the result of the engine call for an entry, and the
  router state after the engine has been called for every entry of a list of desired
  entries that is not skipped, one after the other.
\<close>

definition currentOf :: "ResourceRoutePolicyMap \<Rightarrow> Key \<Rightarrow> RoutePolicyMap" where
  "currentOf retained k = (case go_lookup retained k of None \<Rightarrow> None | Some c \<Rightarrow> c)"

definition skipped :: "ResourceRoutePolicyMap \<Rightarrow> Key \<times> RoutePolicyMap \<Rightarrow> bool" where
  "skipped retained kd = (go_lookup retained (fst kd) = None \<and> go_len (snd kd) = 0)"

definition engineResult :: "'r env \<Rightarrow> string \<Rightarrow> ResourceRoutePolicyMap \<Rightarrow> Key \<times> RoutePolicyMap
    \<Rightarrow> 'r \<Rightarrow> (RoutePolicyMap \<times> error option) \<times> 'r" where
  "engineResult env nm retained kd rt =
     ReconcileRoutePolicies env nm (fst kd) (snd kd) (currentOf retained (fst kd)) rt"

definition enginePass :: "'r env \<Rightarrow> string \<Rightarrow> ResourceRoutePolicyMap \<Rightarrow> (Key \<times> RoutePolicyMap) list
    \<Rightarrow> 'r \<Rightarrow> 'r" where
  "enginePass env nm retained ds rt =
     foldl (\<lambda>rt kd. snd (engineResult env nm retained kd rt))
       rt (filter (\<lambda>kd. \<not> skipped retained kd) ds)"

text \<open>Three desired policy sets, one for each pool of the example.\<close>

definition examplePolicy :: "string \<Rightarrow> RoutePolicy" where
  "examplePolicy poolName =
     RoutePolicy (example_PolicyName ''peer0'' ''ipv4'' BGPCiliumPodIPPoolAdvert poolName)
       (Addr4 3221225985) [RoutePolicyPrefixMatch (Prefix (Addr4 167772160) 24) 24 24] []
       (advertTeam ''a'')"

definition exampleDesired :: "(Key \<times> RoutePolicyMap) list" where
  "exampleDesired =
     [(Key ''pool-a'' ''ns'', Some [(''peer0-ipv4-PodIPPool-pool-a'', examplePolicy ''pool-a'')]),
      (Key ''pool-b'' ''ns'', Some [(''peer0-ipv4-PodIPPool-pool-b'', examplePolicy ''pool-b'')]),
      (Key ''pool-c'' ''ns'', Some [(''peer0-ipv4-PodIPPool-pool-c'', examplePolicy ''pool-c'')])]"

section \<open>Theorems\<close>

subsection \<open>Init\<close>

text \<open>
  C8. \<open>Init\<close> with a nil instance returns a non-nil error whose message starts with the
  \<open>BUG:\<close> tag and leaves the reconciler (so its metadata map) unchanged; \<open>Init\<close> with an
  instance returns nil, sets that instance's metadata to two allocated empty maps and leaves
  the metadata of every other instance name as it was.
\<close>

theorem Init_nil_or_fresh_metadata:
  "(\<exists>msg. fst (Init nm r None) = Some (ErrMsg msg) \<and> take 5 msg = ''BUG: '')
   \<and> snd (Init nm r None) = r
   \<and> fst (Init nm r (Some i)) = None
   \<and> metadata (snd (Init nm r (Some i))) (instance_Name i)
       = Some \<lparr>PoolAFPaths = Some [], PoolRoutePolicies = Some []\<rparr>
   \<and> (\<forall>n. n \<noteq> instance_Name i \<longrightarrow> metadata (snd (Init nm r (Some i))) n = metadata r n)
   \<and> poolStore (snd (Init nm r (Some i))) = poolStore r
   \<and> peerAdvert (snd (Init nm r (Some i))) = peerAdvert r"
  by (simp add: Init_def go_make_def)

theorem Init_nil_or_fresh_metadata_witness:
  "fst (Init ''PodIPPool'' (example_reconciler [] (example_store []) None) None)
     = Some (ErrMsg ''BUG: PodIPPool reconciler initialization with nil BGPInstance'')
   \<and> metadata (snd (Init ''PodIPPool'' (example_reconciler [] (example_store []) None)
                      (Some example_instance))) ''instance-65001''
     = Some \<lparr>PoolAFPaths = Some [], PoolRoutePolicies = Some []\<rparr>
   \<and> metadata (snd (Init ''PodIPPool'' (example_reconciler [] (example_store []) None)
                      (Some example_instance))) ''instance-65002''
     = metadata (example_reconciler [] (example_store []) None) ''instance-65002''"
  using Init_nil_or_fresh_metadata
          [of "''PodIPPool''" "example_reconciler [] (example_store []) None" example_instance]
  by (simp add: example_instance_def Init_def)

subsection \<open>The label set of a pool\<close>

lemma pseudo_labels_differ: "podIPPoolNameLabel \<noteq> podIPPoolNamespaceLabel"
  by (simp add: podIPPoolNameLabel_def podIPPoolNamespaceLabel_def)

text \<open>
  C10. \<open>podIPPoolLabelSet\<close> does not mutate the pool: every map object that exists
  before the call, and so the label map of the pool itself, is the same after the call; the
  result is a map object allocated by the call (a clone of the pool's label map, or a new
  map when that is nil) with the two pseudo-labels stored after the copy, so that the name
  and namespace of the pool override labels the pool declares under these two keys.
\<close>

theorem podIPPoolLabelSet_clones_then_overrides:
  "take (length h) (fst (podIPPoolLabelSet h pool)) = h
   \<and> length h \<le> snd (podIPPoolLabelSet h pool)
   \<and> snd (podIPPoolLabelSet h pool) < length (fst (podIPPoolLabelSet h pool))
   \<and> fst (podIPPoolLabelSet h pool) ! snd (podIPPoolLabelSet h pool)
       = (case pool_Labels pool of None \<Rightarrow> Map.empty | Some p \<Rightarrow> h ! p)
           (podIPPoolNameLabel \<mapsto> pool_Name pool,
            podIPPoolNamespaceLabel \<mapsto> pool_Namespace pool)
   \<and> (\<forall>p. pool_Labels pool = Some p \<and> p < length h
         \<longrightarrow> fst (podIPPoolLabelSet h pool) ! p = h ! p)
   \<and> (fst (podIPPoolLabelSet h pool) ! snd (podIPPoolLabelSet h pool)) podIPPoolNameLabel
       = Some (pool_Name pool)
   \<and> (fst (podIPPoolLabelSet h pool) ! snd (podIPPoolLabelSet h pool)) podIPPoolNamespaceLabel
       = Some (pool_Namespace pool)"
  by (auto simp add: podIPPoolLabelSet_def maps_Clone_def heap_alloc_def heap_store_def Let_def
      nth_append pseudo_labels_differ split: option.splits prod.splits)

theorem podIPPoolLabelSet_clones_then_overrides_witness:
  "pool_Labels (CiliumPodIPPool ''pool-a'' ''ns'' (Some 0) 24 64) = Some 0
   \<and> (0::nat) < length [[podIPPoolNameLabel \<mapsto> ''declared'', ''team'' \<mapsto> ''a'']]
   \<and> fst (podIPPoolLabelSet [[podIPPoolNameLabel \<mapsto> ''declared'', ''team'' \<mapsto> ''a'']]
             (CiliumPodIPPool ''pool-a'' ''ns'' (Some 0) 24 64)) ! 0
       = [podIPPoolNameLabel \<mapsto> ''declared'', ''team'' \<mapsto> ''a'']
   \<and> (fst (podIPPoolLabelSet [[podIPPoolNameLabel \<mapsto> ''declared'', ''team'' \<mapsto> ''a'']]
              (CiliumPodIPPool ''pool-a'' ''ns'' (Some 0) 24 64))
        ! snd (podIPPoolLabelSet [[podIPPoolNameLabel \<mapsto> ''declared'', ''team'' \<mapsto> ''a'']]
                 (CiliumPodIPPool ''pool-a'' ''ns'' (Some 0) 24 64))) podIPPoolNameLabel
       = Some ''pool-a''"
  using podIPPoolLabelSet_clones_then_overrides
          [of "[[podIPPoolNameLabel \<mapsto> ''declared'', ''team'' \<mapsto> ''a'']]"
              "CiliumPodIPPool ''pool-a'' ''ns'' (Some 0) 24 64"]
  by (simp add: pseudo_labels_differ)

subsection \<open>Peer addresses in the derivation of route policies\<close>

lemma getPodIPPoolPolicy_empty_address:
  "peer_Address peer = [] \<Longrightarrow> getPodIPPoolPolicy env peer fam pool advert lp = Inr None"
  by (simp add: getPodIPPoolPolicy_def)

lemma getPodIPPoolPolicy_unparsable_address:
  "peer_Address peer \<noteq> [] \<Longrightarrow> ParseAddr env (peer_Address peer) = Inl e \<Longrightarrow>
   getPodIPPoolPolicy env peer fam pool advert lp = Inl (ErrWrap ''failed to parse peer address'' e)"
  by (simp add: getPodIPPoolPolicy_def)

lemma getPodIPPoolPolicies_loop_skips_empty_address:
  "getPodIPPoolPolicies_loop env pool lp ts m =
   getPodIPPoolPolicies_loop env pool lp (filter (\<lambda>t. peer_Address (fst t) \<noteq> []) ts) m"
proof (induction ts arbitrary: m)
  case Nil
  show ?case by simp
next
  case (Cons t ts)
  obtain peer fam advert where t: "t = (peer, fam, advert)" by (cases t) auto
  show ?case
  proof (cases "peer_Address peer = []")
    case True
    then show ?thesis using Cons.IH [of m]
      by (simp add: t getPodIPPoolPolicy_empty_address)
  next
    case False
    then show ?thesis using Cons.IH
      by (simp add: t split: sum.splits option.splits)
  qed
qed

lemma peer_triples_filter:
  "filter (\<lambda>t. peer_Address (fst t) \<noteq> [])
     (concat (map (\<lambda>(family, adverts). map (\<lambda>advert. (peer, ToAgentFamily env family, advert)) adverts) afs))
   = (if peer_Address peer \<noteq> []
      then concat (map (\<lambda>(family, adverts). map (\<lambda>advert. (peer, ToAgentFamily env family, advert)) adverts) afs)
      else [])"
  by (induction afs) auto

lemma advert_triples_filter:
  "advert_triples env (filter (\<lambda>t. peer_Address (fst t) \<noteq> []) adverts) =
   filter (\<lambda>t. peer_Address (fst t) \<noteq> []) (advert_triples env adverts)"
proof (induction adverts)
  case Nil
  show ?case by (simp add: advert_triples_def)
next
  case (Cons a adverts)
  obtain peer afs where a: "a = (peer, afs)" by (cases a) auto
  have step: "advert_triples env (a # adverts) =
      concat (map (\<lambda>(family, adverts). map (\<lambda>advert. (peer, ToAgentFamily env family, advert)) adverts) afs)
      @ advert_triples env adverts"
    by (simp add: advert_triples_def a)
  show ?case
  proof (cases "peer_Address peer = []")
    case True
    then show ?thesis using Cons.IH
      by (simp only: step filter_append peer_triples_filter) (simp add: a)
  next
    case False
    then have "advert_triples env (filter (\<lambda>t. peer_Address (fst t) \<noteq> []) (a # adverts))
        = concat (map (\<lambda>(family, adverts). map (\<lambda>advert. (peer, ToAgentFamily env family, advert)) adverts) afs)
          @ advert_triples env (filter (\<lambda>t. peer_Address (fst t) \<noteq> []) adverts)"
      by (simp add: advert_triples_def a)
    then show ?thesis using Cons.IH False
      by (simp only: step filter_append peer_triples_filter) simp
  qed
qed

lemma getPodIPPoolPolicies_loop_aborts:
  "(peer, fam, advert) \<in> set ts \<Longrightarrow> peer_Address peer \<noteq> [] \<Longrightarrow>
   ParseAddr env (peer_Address peer) = Inl e \<Longrightarrow>
   isl (getPodIPPoolPolicies_loop env pool lp ts m)"
proof (induction ts arbitrary: m)
  case Nil
  then show ?case by simp
next
  case (Cons t ts)
  obtain p f a where t: "t = (p, f, a)" by (cases t) auto
  show ?case
  proof (cases "t = (peer, fam, advert)")
    case True
    then show ?thesis using Cons.prems
      by (simp add: getPodIPPoolPolicy_unparsable_address)
  next
    case False
    then have "(peer, fam, advert) \<in> set ts" using Cons.prems by simp
    then show ?thesis using Cons.IH Cons.prems
      by (simp add: t split: sum.splits option.splits)
  qed
qed

lemma poolsRoutePolicies_loop_aborts:
  assumes "pools \<noteq> []" and "\<And>pool. isl (getPodIPPoolPolicies env pool adverts lp)"
  shows "isl (poolsRoutePolicies_loop env adverts lp pools acc)"
proof -
  obtain pool rest where pools: "pools = pool # rest" using assms(1) by (cases pools) auto
  obtain e where "getPodIPPoolPolicies env pool adverts lp = Inl e"
    using assms(2) [of pool] by (cases "getPodIPPoolPolicies env pool adverts lp") auto
  then show ?thesis by (simp add: pools)
qed

lemma getPodIPPoolPolicies_aborts:
  "(peer, fam, advert) \<in> set (advert_triples env adverts) \<Longrightarrow> peer_Address peer \<noteq> [] \<Longrightarrow>
   ParseAddr env (peer_Address peer) = Inl e \<Longrightarrow>
   isl (getPodIPPoolPolicies env pool adverts lp)"
  using getPodIPPoolPolicies_loop_aborts [of peer fam advert "advert_triples env adverts" env e pool lp "[]"]
  by (auto simp: getPodIPPoolPolicies_def split: sum.splits)

lemma getDesiredPodIPPoolRoutePolicies_aborts:
  assumes "(peer, fam, advert) \<in> set (advert_triples env adverts)" "peer_Address peer \<noteq> []"
    "ParseAddr env (peer_Address peer) = Inl e" "List (poolStore r) \<noteq> Inr []"
  shows "isl (getDesiredPodIPPoolRoutePolicies env r i adverts lp)"
proof -
  have all: "\<And>pool. isl (getPodIPPoolPolicies env pool adverts lp)"
    using assms(1-3) by (rule getPodIPPoolPolicies_aborts)
  show ?thesis
  proof (cases "List (poolStore r)")
    case (Inl err)
    then show ?thesis by (simp add: getDesiredPodIPPoolRoutePolicies_def split: sum.splits)
  next
    case (Inr pools)
    then have ne: "pools \<noteq> []" using assms(4) by auto
    show ?thesis
    proof (cases "markDeletedRoutePolicies (poolStore r)
                    (go_range (PoolRoutePolicies (getMetadata r i))) []")
      case (Inl err)
      then show ?thesis by (simp add: getDesiredPodIPPoolRoutePolicies_def)
    next
      case (Inr marked)
      have "isl (poolsRoutePolicies_loop env adverts lp pools marked)"
        using ne all by (rule poolsRoutePolicies_loop_aborts)
      then show ?thesis using Inr \<open>List (poolStore r) = Inr pools\<close>
        by (auto simp: getDesiredPodIPPoolRoutePolicies_def split: sum.splits)
    qed
  qed
qed

text \<open>
  C9. A peer whose address is the empty string yields no policy and no error, for every
  pool and advertisement, and the policies of a pool are the same as if the peers with an
  empty address were not configured. A peer whose address is not empty and does not parse
  makes \<open>getPodIPPoolPolicy\<close> return the parse error wrapped; if the peer has an
  advertisement, the policies of every pool are then an error, and unless the store lists no
  pool the route policy pass ends with an error, the reconciler and the router untouched.
\<close>

theorem empty_peer_address_skipped_unparsable_aborts:
  "(peer_Address peer = [] \<longrightarrow> getPodIPPoolPolicy env peer fam pool advert lp = Inr None)
   \<and> getPodIPPoolPolicies env pool adverts lp
       = getPodIPPoolPolicies env pool (filter (\<lambda>t. peer_Address (fst t) \<noteq> []) adverts) lp
   \<and> (peer_Address peer \<noteq> [] \<and> ParseAddr env (peer_Address peer) = Inl e \<longrightarrow>
        getPodIPPoolPolicy env peer fam pool advert lp
          = Inl (ErrWrap ''failed to parse peer address'' e)
        \<and> ((peer, fam, advert) \<in> set (advert_triples env adverts) \<longrightarrow>
             isl (getPodIPPoolPolicies env pool adverts lp)
             \<and> (List (poolStore r) \<noteq> Inr [] \<longrightarrow>
                  (\<exists>err. reconcileRoutePolicies env r i nm adverts lp rt = Some (Some err, r, rt)))))"
proof -
  have skip: "getPodIPPoolPolicies env pool adverts lp
       = getPodIPPoolPolicies env pool (filter (\<lambda>t. peer_Address (fst t) \<noteq> []) adverts) lp"
    using getPodIPPoolPolicies_loop_skips_empty_address [of env pool lp "advert_triples env adverts" "[]"]
    by (simp add: getPodIPPoolPolicies_def advert_triples_filter)
  have abort: "\<exists>err. reconcileRoutePolicies env r i nm adverts lp rt = Some (Some err, r, rt)"
    if "(peer, fam, advert) \<in> set (advert_triples env adverts)" "peer_Address peer \<noteq> []"
       "ParseAddr env (peer_Address peer) = Inl e" "List (poolStore r) \<noteq> Inr []"
  proof -
    have "isl (getDesiredPodIPPoolRoutePolicies env r i adverts lp)"
      using that by (rule getDesiredPodIPPoolRoutePolicies_aborts)
    then obtain err where "getDesiredPodIPPoolRoutePolicies env r i adverts lp = Inl err"
      by (cases "getDesiredPodIPPoolRoutePolicies env r i adverts lp") auto
    then show ?thesis by (simp add: reconcileRoutePolicies_def)
  qed
  have p1: "peer_Address peer = [] \<longrightarrow> getPodIPPoolPolicy env peer fam pool advert lp = Inr None"
    by (simp add: getPodIPPoolPolicy_empty_address)
  have p3: "peer_Address peer \<noteq> [] \<and> ParseAddr env (peer_Address peer) = Inl e \<longrightarrow>
        getPodIPPoolPolicy env peer fam pool advert lp
          = Inl (ErrWrap ''failed to parse peer address'' e)"
    by (simp add: getPodIPPoolPolicy_unparsable_address)
  have p4: "peer_Address peer \<noteq> [] \<and> ParseAddr env (peer_Address peer) = Inl e \<longrightarrow>
        (peer, fam, advert) \<in> set (advert_triples env adverts) \<longrightarrow>
        isl (getPodIPPoolPolicies env pool adverts lp)"
    using getPodIPPoolPolicies_aborts by blast
  show ?thesis
    using p1 skip p3 p4 abort by blast
qed


theorem empty_peer_address_skipped_unparsable_aborts_witness:
  "getPodIPPoolPolicy (example_env []) (PeerID ''peer0'' []) (Family AfiIPv4 SafiUnicast) poolA
      (advertTeam ''a'') (fst (populateLocalPools (example_env []) (Some example_node)))
     = Inr None
   \<and> getPodIPPoolPolicy (example_env []) (PeerID ''peer0'' ''not-an-ip'')
        (Family AfiIPv4 SafiUnicast) poolA (advertTeam ''a'')
        (fst (populateLocalPools (example_env []) (Some example_node)))
     = Inl (ErrWrap ''failed to parse peer address'' (ErrMsg ''ParseAddr: unable to parse IP''))
   \<and> (\<exists>err. reconcileRoutePolicies (example_env [])
                (example_reconciler (example_adverts ''not-an-ip'' [advertTeam ''a''])
                   (example_store [poolA]) None)
                example_instance ''instance-65001''
                (example_adverts ''not-an-ip'' [advertTeam ''a''])
                (fst (populateLocalPools (example_env []) (Some example_node))) 0
              = Some (Some err,
                      example_reconciler (example_adverts ''not-an-ip'' [advertTeam ''a''])
                        (example_store [poolA]) None, 0))"
  using empty_peer_address_skipped_unparsable_aborts
          [of "PeerID ''peer0'' []" "example_env []" "Family AfiIPv4 SafiUnicast" poolA
              "advertTeam ''a''" "fst (populateLocalPools (example_env []) (Some example_node))"]
        empty_peer_address_skipped_unparsable_aborts
          [of "PeerID ''peer0'' ''not-an-ip''" "example_env []" "Family AfiIPv4 SafiUnicast" poolA
              "advertTeam ''a''" "fst (populateLocalPools (example_env []) (Some example_node))"
              "example_adverts ''not-an-ip'' [advertTeam ''a'']"
              "ErrMsg ''ParseAddr: unable to parse IP''"
              "example_reconciler (example_adverts ''not-an-ip'' [advertTeam ''a''])
                 (example_store [poolA]) None"
              example_instance "''instance-65001''" 0]
  by (simp add: example_env_def example_ParseAddr_def example_adverts_def advert_triples_def
        example_ToAgentFamily_def example_reconciler_def example_store_def)

subsection \<open>Evaluation of the example\<close>

lemmas example_defs = example_env_def example_ToPrefix_def example_ParseAddr_def
  example_LabelSelectorAsSelector_def example_requirement_def example_ToAgentFamily_def
  example_addPathToAFPathsMap_def example_AfiString_def example_PolicyName_def
  example_CreatePolicy_def example_router_def example_heap_def poolA_def poolB_def poolC_def
  pool_key_def example_store_def uninitialized_store_def example_node_def advertTeam_def
  advertBadSelector_def example_adverts_def example_instance_def example_reconciler_def
  example_params_def

lemmas model_defs = Reconcile_def ValidateParams_def populateLocalPools_def reconcileRoutePolicies_def
  reconcilePaths_def getDesiredPodIPPoolRoutePolicies_def getDesiredPoolAFPaths_def
  getPodIPPoolPolicies_def getPodIPPoolPolicy_def getDesiredAFPaths_def advert_triples_def
  addPrefixPaths_def selectorMatchesPool_def podIPPoolLabelSet_def maps_Clone_def heap_alloc_def
  heap_store_def getMetadata_def setMetadata_def go_range_def go_lookup_def go_len_def
  go_delete_def go_store_def go_make_def podIPPoolNameLabel_def podIPPoolNamespaceLabel_def
  spec_ReconcileRoutePolicies_def spec_ReconcileResourceAFPaths_def same_content_def

subsection \<open>Pools that no longer exist\<close>

lemma go_lookup_Some [simp]: "go_lookup (Some al) k = map_of al k"
  by (simp add: go_lookup_def go_range_def)

lemma go_lookup_None [simp]: "go_lookup None k = None"
  by (simp add: go_lookup_def go_range_def)

lemma markDeletedAFPaths_lookup:
  "markDeletedAFPaths st ks acc = Inr m \<Longrightarrow>
   map_of m k = (if k \<in> fst ` set ks \<and> GetByKey st k = Inr None then Some None else map_of acc k)"
proof (induction ks arbitrary: acc)
  case Nil
  then show ?case by simp
next
  case (Cons x ks)
  obtain k' v where x: "x = (k', v)" by (cases x) auto
  show ?case
    using Cons.prems Cons.IH
    by (auto simp: x AList.update_conv' split: sum.splits option.splits if_splits)
qed

lemma markDeletedRoutePolicies_lookup:
  "markDeletedRoutePolicies st ks acc = Inr m \<Longrightarrow>
   map_of m k = (if k \<in> fst ` set ks \<and> GetByKey st k = Inr None then Some None else map_of acc k)"
proof (induction ks arbitrary: acc)
  case Nil
  then show ?case by simp
next
  case (Cons x ks)
  obtain k' v where x: "x = (k', v)" by (cases x) auto
  show ?case
    using Cons.prems Cons.IH
    by (auto simp: x AList.update_conv' split: sum.splits option.splits if_splits)
qed

lemma poolsAFPaths_loop_other_key:
  "poolsAFPaths_loop env adverts lp pools acc = Inr m \<Longrightarrow> k \<notin> pool_key ` set pools \<Longrightarrow>
   map_of m k = map_of acc k"
proof (induction pools arbitrary: acc)
  case Nil
  then show ?case by simp
next
  case (Cons pool pools)
  then show ?case
    by (auto simp: AList.update_conv' pool_key_def split: sum.splits)
qed

lemma poolsRoutePolicies_loop_other_key:
  "poolsRoutePolicies_loop env adverts lp pools acc = Inr m \<Longrightarrow> k \<notin> pool_key ` set pools \<Longrightarrow>
   map_of m k = map_of acc k"
proof (induction pools arbitrary: acc)
  case Nil
  then show ?case by simp
next
  case (Cons pool pools)
  then show ?case
    by (auto simp: AList.update_conv' pool_key_def split: sum.splits)
qed

text \<open>
  C6. When the derivation of the desired paths returns a mapping, every key of the
  retained \<open>PoolAFPaths\<close> for which the store reports that the pool does not exist, and
  which no listed pool has, is present in that mapping with the value nil. The same holds
  for the desired route policies and the keys of the retained \<open>PoolRoutePolicies\<close>.
\<close>

theorem deleted_pool_is_mapped_to_nil:
  "(getDesiredPoolAFPaths env r i adverts lp = Inr d
      \<and> k \<in> fst ` set (go_range (PoolAFPaths (getMetadata r i)))
      \<and> GetByKey (poolStore r) k = Inr None
      \<and> List (poolStore r) = Inr pools \<and> k \<notin> pool_key ` set pools
    \<longrightarrow> go_lookup d k = Some None)
   \<and> (getDesiredPodIPPoolRoutePolicies env r i adverts lp = Inr d'
      \<and> k \<in> fst ` set (go_range (PoolRoutePolicies (getMetadata r i)))
      \<and> GetByKey (poolStore r) k = Inr None
      \<and> List (poolStore r) = Inr pools \<and> k \<notin> pool_key ` set pools
    \<longrightarrow> go_lookup d' k = Some None)"
proof (intro conjI impI)
  assume a: "getDesiredPoolAFPaths env r i adverts lp = Inr d
      \<and> k \<in> fst ` set (go_range (PoolAFPaths (getMetadata r i)))
      \<and> GetByKey (poolStore r) k = Inr None
      \<and> List (poolStore r) = Inr pools \<and> k \<notin> pool_key ` set pools"
  then obtain marked m where
      mk: "markDeletedAFPaths (poolStore r) (go_range (PoolAFPaths (getMetadata r i))) [] = Inr marked"
    and lp: "poolsAFPaths_loop env adverts lp pools marked = Inr m" and d: "d = Some m"
    by (auto simp: getDesiredPoolAFPaths_def split: sum.splits)
  have "map_of marked k = Some None"
    using markDeletedAFPaths_lookup [OF mk, of k] a by simp
  moreover have "map_of m k = map_of marked k"
    using poolsAFPaths_loop_other_key [OF lp] a by simp
  ultimately show "go_lookup d k = Some None" by (simp add: d)
next
  assume a: "getDesiredPodIPPoolRoutePolicies env r i adverts lp = Inr d'
      \<and> k \<in> fst ` set (go_range (PoolRoutePolicies (getMetadata r i)))
      \<and> GetByKey (poolStore r) k = Inr None
      \<and> List (poolStore r) = Inr pools \<and> k \<notin> pool_key ` set pools"
  then obtain marked m where
      mk: "markDeletedRoutePolicies (poolStore r) (go_range (PoolRoutePolicies (getMetadata r i))) [] = Inr marked"
    and lp: "poolsRoutePolicies_loop env adverts lp pools marked = Inr m" and d: "d' = Some m"
    by (auto simp: getDesiredPodIPPoolRoutePolicies_def split: sum.splits)
  have "map_of marked k = Some None"
    using markDeletedRoutePolicies_lookup [OF mk, of k] a by simp
  moreover have "map_of m k = map_of marked k"
    using poolsRoutePolicies_loop_other_key [OF lp] a by simp
  ultimately show "go_lookup d' k = Some None" by (simp add: d)
qed

theorem deleted_pool_is_mapped_to_nil_witness:
  "getDesiredPoolAFPaths (example_env [])
     (example_reconciler (example_adverts ''192.0.2.1'' [advertTeam ''a'']) (example_store [poolB])
        (Some \<lparr>PoolAFPaths = Some [(Key ''pool-gone'' ''ns'', Some [])],
               PoolRoutePolicies = Some [(Key ''pool-gone'' ''ns'', Some [])]\<rparr>))
     example_instance (example_adverts ''192.0.2.1'' [advertTeam ''a''])
     (fst (populateLocalPools (example_env []) (Some example_node)))
   = Inr (Some [(Key ''pool-gone'' ''ns'', None), (Key ''pool-b'' ''ns'', Some [])])
   \<and> getDesiredPodIPPoolRoutePolicies (example_env [])
     (example_reconciler (example_adverts ''192.0.2.1'' [advertTeam ''a'']) (example_store [poolB])
        (Some \<lparr>PoolAFPaths = Some [(Key ''pool-gone'' ''ns'', Some [])],
               PoolRoutePolicies = Some [(Key ''pool-gone'' ''ns'', Some [])]\<rparr>))
     example_instance (example_adverts ''192.0.2.1'' [advertTeam ''a''])
     (fst (populateLocalPools (example_env []) (Some example_node)))
   = Inr (Some [(Key ''pool-gone'' ''ns'', None), (Key ''pool-b'' ''ns'', Some [])])
   \<and> go_lookup (Some [(Key ''pool-gone'' ''ns'', None), (Key ''pool-b'' ''ns'', Some [])])
        (Key ''pool-gone'' ''ns'') = Some (None :: AFPathsMap)
   \<and> go_lookup (Some [(Key ''pool-gone'' ''ns'', None), (Key ''pool-b'' ''ns'', Some [])])
        (Key ''pool-gone'' ''ns'') = Some (None :: RoutePolicyMap)"
  using deleted_pool_is_mapped_to_nil
          [of "example_env []"
              "example_reconciler (example_adverts ''192.0.2.1'' [advertTeam ''a''])
                 (example_store [poolB])
                 (Some \<lparr>PoolAFPaths = Some [(Key ''pool-gone'' ''ns'', Some [])],
                        PoolRoutePolicies = Some [(Key ''pool-gone'' ''ns'', Some [])]\<rparr>)"
              example_instance "example_adverts ''192.0.2.1'' [advertTeam ''a'']"
              "fst (populateLocalPools (example_env []) (Some example_node))"
              "Some [(Key ''pool-gone'' ''ns'', None), (Key ''pool-b'' ''ns'', Some [])]"
              "Key ''pool-gone'' ''ns''" "[poolB]"
              "Some [(Key ''pool-gone'' ''ns'', None), (Key ''pool-b'' ''ns'', Some [])]"]
  by (simp add: example_defs model_defs Let_def)


subsection \<open>Pools that match no advertisement\<close>

lemma getDesiredAFPaths_loop_no_match:
  "list_all (\<lambda>t. case LabelSelectorAsSelector env (Selector (snd (snd t))) of
                      Inl err \<Rightarrow> True
                    | Inr poolSelector \<Rightarrow> \<not> selectorMatchesPool poolSelector (pool_heap env) pool) ts \<Longrightarrow>
   getDesiredAFPaths_loop env pool lp ts acc = Inr m \<Longrightarrow> m = acc"
proof (induction ts arbitrary: acc)
  case Nil
  then show ?case by simp
next
  case (Cons t ts)
  obtain peer fam advert where t: "t = (peer, fam, advert)" by (cases t) auto
  show ?case using Cons.prems Cons.IH
    by (auto simp: t split: if_splits sum.splits option.splits)
qed

lemma getPodIPPoolPolicy_no_match:
  "(case LabelSelectorAsSelector env (Selector advert) of
      Inl err \<Rightarrow> True
    | Inr poolSelector \<Rightarrow> \<not> selectorMatchesPool poolSelector (pool_heap env) pool) \<Longrightarrow>
   getPodIPPoolPolicy env peer fam pool advert lp = Inr x \<Longrightarrow> x = None"
  by (auto simp: getPodIPPoolPolicy_def split: if_splits sum.splits option.splits)

lemma getPodIPPoolPolicies_loop_no_match:
  "list_all (\<lambda>t. case LabelSelectorAsSelector env (Selector (snd (snd t))) of
                      Inl err \<Rightarrow> True
                    | Inr poolSelector \<Rightarrow> \<not> selectorMatchesPool poolSelector (pool_heap env) pool) ts \<Longrightarrow>
   getPodIPPoolPolicies_loop env pool lp ts acc = Inr m \<Longrightarrow> m = acc"
proof (induction ts arbitrary: acc)
  case Nil
  then show ?case by simp
next
  case (Cons t ts)
  obtain peer fam advert where t: "t = (peer, fam, advert)" by (cases t) auto
  show ?case
  proof (cases "getPodIPPoolPolicy env peer fam pool advert lp")
    case (Inl e)
    then show ?thesis using Cons.prems by (simp add: t)
  next
    case (Inr x)
    then have "x = None" using Cons.prems(1) getPodIPPoolPolicy_no_match [where env=env and advert=advert and pool=pool and peer=peer and fam=fam and lp=lp and x=x]
      by (simp add: t)
    then show ?thesis using Cons.prems Cons.IH Inr by (simp add: t)
  qed
qed

lemma poolsAFPaths_loop_entry:
  "poolsAFPaths_loop env adverts lp pools acc = Inr m \<Longrightarrow> distinct (map pool_key pools) \<Longrightarrow>
   pool \<in> set pools \<Longrightarrow>
   \<exists>v. getDesiredAFPaths env pool adverts lp = Inr v \<and> map_of m (pool_key pool) = Some v"
proof (induction pools arbitrary: acc)
  case Nil
  then show ?case by simp
next
  case (Cons q pools)
  from Cons.prems(1) obtain v where
      v: "getDesiredAFPaths env q adverts lp = Inr v"
    and rest: "poolsAFPaths_loop env adverts lp pools (AList.update (pool_key q) v acc) = Inr m"
    by (auto simp: pool_key_def split: sum.splits)
  show ?case
  proof (cases "pool = q")
    case True
    have "pool_key q \<notin> pool_key ` set pools" using Cons.prems(2) by auto
    then have "map_of m (pool_key q) = map_of (AList.update (pool_key q) v acc) (pool_key q)"
      using poolsAFPaths_loop_other_key [OF rest] by simp
    then show ?thesis using v True by (simp add: AList.update_conv')
  next
    case False
    then show ?thesis using Cons.IH [OF rest] Cons.prems by auto
  qed
qed

lemma poolsRoutePolicies_loop_entry:
  "poolsRoutePolicies_loop env adverts lp pools acc = Inr m \<Longrightarrow> distinct (map pool_key pools) \<Longrightarrow>
   pool \<in> set pools \<Longrightarrow>
   \<exists>v. getPodIPPoolPolicies env pool adverts lp = Inr v \<and> map_of m (pool_key pool) = Some v"
proof (induction pools arbitrary: acc)
  case Nil
  then show ?case by simp
next
  case (Cons q pools)
  from Cons.prems(1) obtain v where
      v: "getPodIPPoolPolicies env q adverts lp = Inr v"
    and rest: "poolsRoutePolicies_loop env adverts lp pools (AList.update (pool_key q) v acc) = Inr m"
    by (auto simp: pool_key_def split: sum.splits)
  show ?case
  proof (cases "pool = q")
    case True
    have "pool_key q \<notin> pool_key ` set pools" using Cons.prems(2) by auto
    then have "map_of m (pool_key q) = map_of (AList.update (pool_key q) v acc) (pool_key q)"
      using poolsRoutePolicies_loop_other_key [OF rest] by simp
    then show ?thesis using v True by (simp add: AList.update_conv')
  next
    case False
    then show ?thesis using Cons.IH [OF rest] Cons.prems by auto
  qed
qed

lemma getDesiredAFPaths_no_match:
  "matchesNoAdvertisement env pool adverts \<Longrightarrow> getDesiredAFPaths env pool adverts lp = Inr v \<Longrightarrow>
   v = Some []"
  using getDesiredAFPaths_loop_no_match [of env pool "advert_triples env adverts" lp "[]"]
  by (auto simp: getDesiredAFPaths_def matchesNoAdvertisement_def split: sum.splits)

lemma getDesiredAFPaths_not_nil:
  "getDesiredAFPaths env pool adverts lp = Inr v \<Longrightarrow> \<exists>m. v = Some m"
  by (auto simp: getDesiredAFPaths_def split: sum.splits)

lemma getPodIPPoolPolicies_no_match:
  "matchesNoAdvertisement env pool adverts \<Longrightarrow> getPodIPPoolPolicies env pool adverts lp = Inr v \<Longrightarrow>
   v = Some []"
  using getPodIPPoolPolicies_loop_no_match [of env pool "advert_triples env adverts" lp "[]"]
  by (auto simp: getPodIPPoolPolicies_def matchesNoAdvertisement_def split: sum.splits)

lemma getPodIPPoolPolicies_not_nil:
  "getPodIPPoolPolicies env pool adverts lp = Inr v \<Longrightarrow> \<exists>m. v = Some m"
  by (auto simp: getPodIPPoolPolicies_def split: sum.splits)

lemma poolsAFPaths_loop_listed_not_nil:
  "poolsAFPaths_loop env adverts lp pools acc = Inr m \<Longrightarrow> k \<in> pool_key ` set pools \<Longrightarrow>
   \<exists>v. map_of m k = Some (Some v)"
proof (induction pools arbitrary: acc)
  case Nil
  then show ?case by simp
next
  case (Cons q pools)
  from Cons.prems(1) obtain v where
      v: "getDesiredAFPaths env q adverts lp = Inr v"
    and rest: "poolsAFPaths_loop env adverts lp pools (AList.update (pool_key q) v acc) = Inr m"
    by (auto simp: pool_key_def split: sum.splits)
  show ?case
  proof (cases "k \<in> pool_key ` set pools")
    case True
    then show ?thesis using Cons.IH [OF rest] by simp
  next
    case False
    then have k: "k = pool_key q" using Cons.prems(2) by simp
    have "map_of m k = map_of (AList.update (pool_key q) v acc) k"
      using poolsAFPaths_loop_other_key [OF rest False] .
    then show ?thesis using getDesiredAFPaths_not_nil [OF v] by (auto simp: k AList.update_conv')
  qed
qed

lemma poolsRoutePolicies_loop_listed_not_nil:
  "poolsRoutePolicies_loop env adverts lp pools acc = Inr m \<Longrightarrow> k \<in> pool_key ` set pools \<Longrightarrow>
   \<exists>v. map_of m k = Some (Some v)"
proof (induction pools arbitrary: acc)
  case Nil
  then show ?case by simp
next
  case (Cons q pools)
  from Cons.prems(1) obtain v where
      v: "getPodIPPoolPolicies env q adverts lp = Inr v"
    and rest: "poolsRoutePolicies_loop env adverts lp pools (AList.update (pool_key q) v acc) = Inr m"
    by (auto simp: pool_key_def split: sum.splits)
  show ?case
  proof (cases "k \<in> pool_key ` set pools")
    case True
    then show ?thesis using Cons.IH [OF rest] by simp
  next
    case False
    then have k: "k = pool_key q" using Cons.prems(2) by simp
    have "map_of m k = map_of (AList.update (pool_key q) v acc) k"
      using poolsRoutePolicies_loop_other_key [OF rest False] .
    then show ?thesis using getPodIPPoolPolicies_not_nil [OF v] by (auto simp: k AList.update_conv')
  qed
qed

text \<open>
  The store lists \<open>pool-b\<close>, whose label set (team b) no advertisement selects. Both
  desired mappings have an entry for its key, the empty mapping.
\<close>

theorem unmatched_pool_has_empty_entry_counterexample:
  "matchesNoAdvertisement (example_env []) poolB (example_adverts ''192.0.2.1'' [advertTeam ''a''])
   \<and> getDesiredPoolAFPaths (example_env [])
        (example_reconciler (example_adverts ''192.0.2.1'' [advertTeam ''a'']) (example_store [poolB])
           (Some \<lparr>PoolAFPaths = Some [], PoolRoutePolicies = Some []\<rparr>))
        example_instance (example_adverts ''192.0.2.1'' [advertTeam ''a''])
        (fst (populateLocalPools (example_env []) (Some example_node)))
      = Inr (Some [(Key ''pool-b'' ''ns'', Some [])])
   \<and> getDesiredPodIPPoolRoutePolicies (example_env [])
        (example_reconciler (example_adverts ''192.0.2.1'' [advertTeam ''a'']) (example_store [poolB])
           (Some \<lparr>PoolAFPaths = Some [], PoolRoutePolicies = Some []\<rparr>))
        example_instance (example_adverts ''192.0.2.1'' [advertTeam ''a''])
        (fst (populateLocalPools (example_env []) (Some example_node)))
      = Inr (Some [(Key ''pool-b'' ''ns'', Some [])])
   \<and> go_lookup (Some [(Key ''pool-b'' ''ns'', Some [])]) (pool_key poolB)
      = Some (Some [] :: AFPathsMap)
   \<and> go_lookup (Some [(Key ''pool-b'' ''ns'', Some [])]) (pool_key poolB)
      \<noteq> (None :: RoutePolicyMap option)"
  by (simp add: example_defs model_defs matchesNoAdvertisement_def Let_def)

text \<open>
  C5 (amended). When the derivation of a desired mapping returns a mapping, every pool
  that the store lists has an entry for its resource key, and the entry is never nil; for
  a pool that matches no advertisement's label selector the entry is the empty mapping
  (the store listing its pools under distinct keys). A nil entry occurs only for a key of
  the retained metadata for which the store reports that the pool does not exist, and
  which no listed pool has. This holds for the desired paths and for the desired route
  policies.
\<close>

theorem listed_pool_has_entry_empty_when_unmatched:
  "(getDesiredPoolAFPaths env r i adverts lp = Inr d \<and> List (poolStore r) = Inr pools
    \<longrightarrow> (pool \<in> set pools
           \<longrightarrow> (\<exists>m. go_lookup d (pool_key pool) = Some (Some m))
             \<and> (distinct (map pool_key pools) \<and> matchesNoAdvertisement env pool adverts
                  \<longrightarrow> go_lookup d (pool_key pool) = Some (Some [])))
        \<and> (go_lookup d k = Some None
           \<longrightarrow> k \<in> fst ` set (go_range (PoolAFPaths (getMetadata r i)))
             \<and> GetByKey (poolStore r) k = Inr None \<and> k \<notin> pool_key ` set pools))
   \<and> (getDesiredPodIPPoolRoutePolicies env r i adverts lp = Inr d' \<and> List (poolStore r) = Inr pools
    \<longrightarrow> (pool \<in> set pools
           \<longrightarrow> (\<exists>m. go_lookup d' (pool_key pool) = Some (Some m))
             \<and> (distinct (map pool_key pools) \<and> matchesNoAdvertisement env pool adverts
                  \<longrightarrow> go_lookup d' (pool_key pool) = Some (Some [])))
        \<and> (go_lookup d' k = Some None
           \<longrightarrow> k \<in> fst ` set (go_range (PoolRoutePolicies (getMetadata r i)))
             \<and> GetByKey (poolStore r) k = Inr None \<and> k \<notin> pool_key ` set pools))"
proof -
  have paths: "(pool \<in> set pools
           \<longrightarrow> (\<exists>m. go_lookup d (pool_key pool) = Some (Some m))
             \<and> (distinct (map pool_key pools) \<and> matchesNoAdvertisement env pool adverts
                  \<longrightarrow> go_lookup d (pool_key pool) = Some (Some [])))
        \<and> (go_lookup d k = Some None
           \<longrightarrow> k \<in> fst ` set (go_range (PoolAFPaths (getMetadata r i)))
             \<and> GetByKey (poolStore r) k = Inr None \<and> k \<notin> pool_key ` set pools)"
    if a: "getDesiredPoolAFPaths env r i adverts lp = Inr d" "List (poolStore r) = Inr pools"
  proof -
    from a obtain marked m where
        mk: "markDeletedAFPaths (poolStore r) (go_range (PoolAFPaths (getMetadata r i))) [] = Inr marked"
      and lp: "poolsAFPaths_loop env adverts lp pools marked = Inr m" and d: "d = Some m"
      by (auto simp: getDesiredPoolAFPaths_def split: sum.splits)
    have listed: "\<exists>m'. go_lookup d (pool_key pool) = Some (Some m')" if "pool \<in> set pools"
      using poolsAFPaths_loop_listed_not_nil [OF lp, of "pool_key pool"] that by (simp add: d)
    have empty: "go_lookup d (pool_key pool) = Some (Some [])"
      if "pool \<in> set pools" "distinct (map pool_key pools)" "matchesNoAdvertisement env pool adverts"
    proof -
      from poolsAFPaths_loop_entry [OF lp that(2) that(1)] obtain v where
          v: "getDesiredAFPaths env pool adverts lp = Inr v" "map_of m (pool_key pool) = Some v"
        by blast
      show ?thesis using v getDesiredAFPaths_no_match [OF that(3) v(1)] by (simp add: d)
    qed
    have nil: "k \<in> fst ` set (go_range (PoolAFPaths (getMetadata r i)))
             \<and> GetByKey (poolStore r) k = Inr None \<and> k \<notin> pool_key ` set pools"
      if n: "go_lookup d k = Some None"
    proof -
      have notin: "k \<notin> pool_key ` set pools"
        using poolsAFPaths_loop_listed_not_nil [OF lp, of k] n by (auto simp: d)
      then have "map_of marked k = Some None"
        using poolsAFPaths_loop_other_key [OF lp notin] n by (simp add: d)
      then show ?thesis
        using markDeletedAFPaths_lookup [OF mk, of k] notin by (simp split: if_splits)
    qed
    show ?thesis using listed empty nil by blast
  qed
  have policies: "(pool \<in> set pools
           \<longrightarrow> (\<exists>m. go_lookup d' (pool_key pool) = Some (Some m))
             \<and> (distinct (map pool_key pools) \<and> matchesNoAdvertisement env pool adverts
                  \<longrightarrow> go_lookup d' (pool_key pool) = Some (Some [])))
        \<and> (go_lookup d' k = Some None
           \<longrightarrow> k \<in> fst ` set (go_range (PoolRoutePolicies (getMetadata r i)))
             \<and> GetByKey (poolStore r) k = Inr None \<and> k \<notin> pool_key ` set pools)"
    if a: "getDesiredPodIPPoolRoutePolicies env r i adverts lp = Inr d'" "List (poolStore r) = Inr pools"
  proof -
    from a obtain marked m where
        mk: "markDeletedRoutePolicies (poolStore r) (go_range (PoolRoutePolicies (getMetadata r i))) [] = Inr marked"
      and lp: "poolsRoutePolicies_loop env adverts lp pools marked = Inr m" and d: "d' = Some m"
      by (auto simp: getDesiredPodIPPoolRoutePolicies_def split: sum.splits)
    have listed: "\<exists>m'. go_lookup d' (pool_key pool) = Some (Some m')" if "pool \<in> set pools"
      using poolsRoutePolicies_loop_listed_not_nil [OF lp, of "pool_key pool"] that by (simp add: d)
    have empty: "go_lookup d' (pool_key pool) = Some (Some [])"
      if "pool \<in> set pools" "distinct (map pool_key pools)" "matchesNoAdvertisement env pool adverts"
    proof -
      from poolsRoutePolicies_loop_entry [OF lp that(2) that(1)] obtain v where
          v: "getPodIPPoolPolicies env pool adverts lp = Inr v" "map_of m (pool_key pool) = Some v"
        by blast
      show ?thesis using v getPodIPPoolPolicies_no_match [OF that(3) v(1)] by (simp add: d)
    qed
    have nil: "k \<in> fst ` set (go_range (PoolRoutePolicies (getMetadata r i)))
             \<and> GetByKey (poolStore r) k = Inr None \<and> k \<notin> pool_key ` set pools"
      if n: "go_lookup d' k = Some None"
    proof -
      have notin: "k \<notin> pool_key ` set pools"
        using poolsRoutePolicies_loop_listed_not_nil [OF lp, of k] n by (auto simp: d)
      then have "map_of marked k = Some None"
        using poolsRoutePolicies_loop_other_key [OF lp notin] n by (simp add: d)
      then show ?thesis
        using markDeletedRoutePolicies_lookup [OF mk, of k] notin by (simp split: if_splits)
    qed
    show ?thesis using listed empty nil by blast
  qed
  show ?thesis using paths policies by blast
qed

theorem listed_pool_has_entry_empty_when_unmatched_witness:
  "distinct (map pool_key [poolA, poolB]) \<and> poolB \<in> set [poolA, poolB]
   \<and> matchesNoAdvertisement (example_env []) poolB (example_adverts ''192.0.2.1'' [advertTeam ''a''])
   \<and> List (example_store [poolA, poolB]) = Inr [poolA, poolB]
   \<and> getDesiredPoolAFPaths (example_env [])
        (example_reconciler (example_adverts ''192.0.2.1'' [advertTeam ''a''])
           (example_store [poolA, poolB])
           (Some \<lparr>PoolAFPaths = Some [(Key ''pool-gone'' ''ns'', Some [])],
                  PoolRoutePolicies = Some [(Key ''pool-gone'' ''ns'', Some [])]\<rparr>))
        example_instance (example_adverts ''192.0.2.1'' [advertTeam ''a''])
        (fst (populateLocalPools (example_env []) (Some example_node)))
      = Inr (Some [(Key ''pool-gone'' ''ns'', None),
               (Key ''pool-a'' ''ns'',
                Some [(Family AfiIPv4 SafiUnicast,
                       Some [(Prefix (Addr4 167772160) 24,
                              Path (Prefix (Addr4 167772160) 24) (Family AfiIPv4 SafiUnicast))])]),
               (Key ''pool-b'' ''ns'', Some [])])
   \<and> getDesiredPodIPPoolRoutePolicies (example_env [])
        (example_reconciler (example_adverts ''192.0.2.1'' [advertTeam ''a''])
           (example_store [poolA, poolB])
           (Some \<lparr>PoolAFPaths = Some [(Key ''pool-gone'' ''ns'', Some [])],
                  PoolRoutePolicies = Some [(Key ''pool-gone'' ''ns'', Some [])]\<rparr>))
        example_instance (example_adverts ''192.0.2.1'' [advertTeam ''a''])
        (fst (populateLocalPools (example_env []) (Some example_node)))
      = Inr (Some [(Key ''pool-gone'' ''ns'', None),
               (Key ''pool-a'' ''ns'',
                Some [(''peer0-ipv4-PodIPPool-pool-a'',
                       RoutePolicy ''peer0-ipv4-PodIPPool-pool-a'' (Addr4 3221225985)
                         [RoutePolicyPrefixMatch (Prefix (Addr4 167772160) 24) 24 24] []
                         (advertTeam ''a''))]),
               (Key ''pool-b'' ''ns'', Some [])])
   \<and> go_lookup
        (Some [(Key ''pool-gone'' ''ns'', None),
               (Key ''pool-a'' ''ns'',
                Some [(Family AfiIPv4 SafiUnicast,
                       Some [(Prefix (Addr4 167772160) 24,
                              Path (Prefix (Addr4 167772160) 24) (Family AfiIPv4 SafiUnicast))])]),
               (Key ''pool-b'' ''ns'', Some [])])
        (pool_key poolB) = Some (Some [])
   \<and> go_lookup
        (Some [(Key ''pool-gone'' ''ns'', None),
               (Key ''pool-a'' ''ns'',
                Some [(''peer0-ipv4-PodIPPool-pool-a'',
                       RoutePolicy ''peer0-ipv4-PodIPPool-pool-a'' (Addr4 3221225985)
                         [RoutePolicyPrefixMatch (Prefix (Addr4 167772160) 24) 24 24] []
                         (advertTeam ''a''))]),
               (Key ''pool-b'' ''ns'', Some [])])
        (pool_key poolB) = Some (Some [])
   \<and> go_lookup
        (Some [(Key ''pool-gone'' ''ns'', None),
               (Key ''pool-a'' ''ns'',
                Some [(Family AfiIPv4 SafiUnicast,
                       Some [(Prefix (Addr4 167772160) 24,
                              Path (Prefix (Addr4 167772160) 24) (Family AfiIPv4 SafiUnicast))])]),
               (Key ''pool-b'' ''ns'', Some [])])
        (Key ''pool-gone'' ''ns'') = Some None
   \<and> go_lookup
        (Some [(Key ''pool-gone'' ''ns'', None),
               (Key ''pool-a'' ''ns'',
                Some [(''peer0-ipv4-PodIPPool-pool-a'',
                       RoutePolicy ''peer0-ipv4-PodIPPool-pool-a'' (Addr4 3221225985)
                         [RoutePolicyPrefixMatch (Prefix (Addr4 167772160) 24) 24 24] []
                         (advertTeam ''a''))]),
               (Key ''pool-b'' ''ns'', Some [])])
        (Key ''pool-gone'' ''ns'') = Some None
   \<and> Key ''pool-gone'' ''ns'' \<in> fst ` set (go_range (PoolAFPaths (getMetadata
        (example_reconciler (example_adverts ''192.0.2.1'' [advertTeam ''a''])
           (example_store [poolA, poolB])
           (Some \<lparr>PoolAFPaths = Some [(Key ''pool-gone'' ''ns'', Some [])],
                  PoolRoutePolicies = Some [(Key ''pool-gone'' ''ns'', Some [])]\<rparr>))
        example_instance)))
   \<and> Key ''pool-gone'' ''ns'' \<in> fst ` set (go_range (PoolRoutePolicies (getMetadata
        (example_reconciler (example_adverts ''192.0.2.1'' [advertTeam ''a''])
           (example_store [poolA, poolB])
           (Some \<lparr>PoolAFPaths = Some [(Key ''pool-gone'' ''ns'', Some [])],
                  PoolRoutePolicies = Some [(Key ''pool-gone'' ''ns'', Some [])]\<rparr>))
        example_instance)))
   \<and> GetByKey (example_store [poolA, poolB]) (Key ''pool-gone'' ''ns'') = Inr None
   \<and> Key ''pool-gone'' ''ns'' \<notin> pool_key ` set [poolA, poolB]"
  using listed_pool_has_entry_empty_when_unmatched
          [where env = "example_env []"
             and r = "example_reconciler (example_adverts ''192.0.2.1'' [advertTeam ''a''])
           (example_store [poolA, poolB])
           (Some \<lparr>PoolAFPaths = Some [(Key ''pool-gone'' ''ns'', Some [])],
                  PoolRoutePolicies = Some [(Key ''pool-gone'' ''ns'', Some [])]\<rparr>)"
             and i = example_instance and adverts = "example_adverts ''192.0.2.1'' [advertTeam ''a'']"
             and lp = "fst (populateLocalPools (example_env []) (Some example_node))"
             and d = "Some [(Key ''pool-gone'' ''ns'', None),
               (Key ''pool-a'' ''ns'',
                Some [(Family AfiIPv4 SafiUnicast,
                       Some [(Prefix (Addr4 167772160) 24,
                              Path (Prefix (Addr4 167772160) 24) (Family AfiIPv4 SafiUnicast))])]),
               (Key ''pool-b'' ''ns'', Some [])]"
             and d' = "Some [(Key ''pool-gone'' ''ns'', None),
               (Key ''pool-a'' ''ns'',
                Some [(''peer0-ipv4-PodIPPool-pool-a'',
                       RoutePolicy ''peer0-ipv4-PodIPPool-pool-a'' (Addr4 3221225985)
                         [RoutePolicyPrefixMatch (Prefix (Addr4 167772160) 24) 24 24] []
                         (advertTeam ''a''))]),
               (Key ''pool-b'' ''ns'', Some [])]"
             and pools = "[poolA, poolB]" and pool = poolB and k = "Key ''pool-gone'' ''ns''"]
  by (simp add: example_defs model_defs matchesNoAdvertisement_def Let_def)


subsection \<open>Items that fail to parse or convert\<close>



















subsection \<open>The route policy pass\<close>

lemma errors_Is_refl: "errors_Is e e"
  by (cases e) auto

lemma errors_Join_keeps:
  "errors_Is E0 x \<Longrightarrow> \<exists>E. errors_Join (Some E0) b = Some E \<and> errors_Is E x"
  by (cases b) auto

lemma errors_Join_adds:
  "\<exists>E. errors_Join a (Some e) = Some E \<and> errors_Is E e"
  by (cases a) (auto simp: errors_Is_refl)

lemma go_lookup_delete: "go_lookup (go_delete k m) k' = (if k' = k then None else go_lookup m k')"
  by (cases m) (auto simp: go_delete_def go_lookup_def go_range_def AList.delete_conv')

lemma go_lookup_store:
  "go_store k v m = Some m' \<Longrightarrow> go_lookup m' k' = (if k' = k then Some v else go_lookup m k')"
  by (cases m) (auto simp: go_store_def go_lookup_def go_range_def AList.update_conv')

lemma reconcileRoutePolicies_loop_step:
  assumes "reconcileRoutePolicies_loop env nm ((k, d) # rest) (err0, ret0, rt0) = Some res"
  shows "\<exists>err1 ret1 rt1.
           reconcileRoutePolicies_loop env nm rest (err1, ret1, rt1) = Some res
         \<and> (\<forall>k'. k' \<noteq> k \<longrightarrow> go_lookup ret1 k' = go_lookup ret0 k')
         \<and> (skipped ret0 (k, d) \<longrightarrow> err1 = err0 \<and> rt1 = rt0 \<and> go_lookup ret1 k = None)
         \<and> (\<not> skipped ret0 (k, d) \<longrightarrow>
                err1 = errors_Join err0 (snd (fst (engineResult env nm ret0 (k, d) rt0)))
              \<and> rt1 = snd (engineResult env nm ret0 (k, d) rt0)
              \<and> go_lookup ret1 k =
                  (if snd (fst (engineResult env nm ret0 (k, d) rt0)) = None \<and> go_len d = 0
                   then None else Some (fst (fst (engineResult env nm ret0 (k, d) rt0)))))"
proof (cases "skipped ret0 (k, d)")
  case True
  then have "reconcileRoutePolicies_loop env nm rest (err0, ret0, rt0) = Some res"
    using assms by (auto simp: skipped_def split: option.splits)
  then show ?thesis using True by (auto simp: skipped_def)
next
  case False
  obtain u rErr rt' where eng:
    "ReconcileRoutePolicies env nm k d (currentOf ret0 k) rt0 = ((u, rErr), rt')"
    by (metis prod.exhaust)
  then have res: "engineResult env nm ret0 (k, d) rt0 = ((u, rErr), rt')"
    by (simp add: engineResult_def)
  have cur: "(case go_lookup ret0 k of None \<Rightarrow> (None, False) | Some c \<Rightarrow> (c, True))
             = (currentOf ret0 k, go_lookup ret0 k \<noteq> None)"
    by (simp add: currentOf_def split: option.splits)
  have cond: "\<not> (go_lookup ret0 k = None \<and> go_len d = 0)"
    using False by (simp add: skipped_def)
  have unfold: "reconcileRoutePolicies_loop env nm ((k, d) # rest) (err0, ret0, rt0) =
      (if rErr = None \<and> go_len d = 0
       then reconcileRoutePolicies_loop env nm rest (errors_Join err0 rErr, go_delete k ret0, rt')
       else (case go_store k u ret0 of
               None \<Rightarrow> None
             | Some retained' \<Rightarrow>
                 reconcileRoutePolicies_loop env nm rest (errors_Join err0 rErr, retained', rt')))"
  proof (cases "go_lookup ret0 k")
    case None
    then have "go_len d \<noteq> 0" using cond by simp
    then show ?thesis using None eng by (simp add: currentOf_def)
  next
    case (Some c)
    then show ?thesis using eng by (simp add: currentOf_def)
  qed
  show ?thesis
  proof (cases "rErr = None \<and> go_len d = 0")
    case True
    then have "reconcileRoutePolicies_loop env nm rest (errors_Join err0 rErr, go_delete k ret0, rt')
               = Some res"
      using assms unfold by simp
    then show ?thesis using False True
      by (intro exI [of _ "errors_Join err0 rErr"] exI [of _ "go_delete k ret0"] exI [of _ rt'])
         (simp add: go_lookup_delete res)
  next
    case nd: False
    then obtain ret1 where st: "go_store k u ret0 = Some ret1"
      and rest: "reconcileRoutePolicies_loop env nm rest (errors_Join err0 rErr, ret1, rt') = Some res"
      using assms unfold by (auto split: option.splits)
    show ?thesis using False nd rest go_lookup_store [OF st]
      by (intro exI [of _ "errors_Join err0 rErr"] exI [of _ ret1] exI [of _ rt'])
         (auto simp: res)
  qed
qed

lemma enginePass_cong:
  "\<forall>kd \<in> set ds. go_lookup ret1 (fst kd) = go_lookup ret0 (fst kd) \<Longrightarrow>
   enginePass env nm ret1 ds rt = enginePass env nm ret0 ds rt"
proof (induction ds arbitrary: rt)
  case Nil
  show ?case by (simp add: enginePass_def)
next
  case (Cons kd ds)
  have a: "skipped ret1 kd = skipped ret0 kd"
      "\<And>rt. engineResult env nm ret1 kd rt = engineResult env nm ret0 kd rt"
    using Cons.prems by (simp_all add: skipped_def currentOf_def engineResult_def)
  have "\<And>rt. enginePass env nm ret1 ds rt = enginePass env nm ret0 ds rt"
    using Cons by simp
  then show ?case
    by (simp add: enginePass_def a)
qed

lemma enginePass_Cons:
  "enginePass env nm ret (kd # ds) rt =
   enginePass env nm ret ds
     (if skipped ret kd then rt else snd (engineResult env nm ret kd rt))"
  by (simp add: enginePass_def)

lemma reconcileRoutePolicies_loop_router:
  "reconcileRoutePolicies_loop env nm ds (err0, ret0, rt0) = Some (err, ret, rt) \<Longrightarrow>
   distinct (map fst ds) \<Longrightarrow> rt = enginePass env nm ret0 ds rt0"
proof (induction ds arbitrary: err0 ret0 rt0)
  case Nil
  then show ?case by (simp add: enginePass_def)
next
  case (Cons kd ds)
  obtain k d where kd: "kd = (k, d)" by (cases kd) auto
  obtain err1 ret1 rt1 where
      rest: "reconcileRoutePolicies_loop env nm ds (err1, ret1, rt1) = Some (err, ret, rt)"
    and frame: "\<forall>k'. k' \<noteq> k \<longrightarrow> go_lookup ret1 k' = go_lookup ret0 k'"
    and sk: "skipped ret0 (k, d) \<longrightarrow> rt1 = rt0"
    and ns: "\<not> skipped ret0 (k, d) \<longrightarrow> rt1 = snd (engineResult env nm ret0 (k, d) rt0)"
    using reconcileRoutePolicies_loop_step [OF Cons.prems(1) [unfolded kd]] by auto
  have rt1: "rt1 = (if skipped ret0 (k, d) then rt0
                    else snd (engineResult env nm ret0 (k, d) rt0))"
    using sk ns by auto
  have "k \<notin> fst ` set ds" using Cons.prems(2) by (simp add: kd)
  then have same: "\<forall>kd \<in> set ds. go_lookup ret1 (fst kd) = go_lookup ret0 (fst kd)"
    using frame by auto
  have "rt = enginePass env nm ret1 ds rt1"
    using Cons.IH [OF rest] Cons.prems(2) by simp
  then show ?case
    by (simp add: kd enginePass_Cons rt1 enginePass_cong [OF same])
qed

lemma reconcileRoutePolicies_loop_frame:
  "reconcileRoutePolicies_loop env nm ds (err0, ret0, rt0) = Some (err, ret, rt) \<Longrightarrow>
   k \<notin> fst ` set ds \<Longrightarrow> go_lookup ret k = go_lookup ret0 k"
proof (induction ds arbitrary: err0 ret0 rt0)
  case Nil
  then show ?case by simp
next
  case (Cons kd ds)
  obtain k' d where kd: "kd = (k', d)" by (cases kd) auto
  obtain err1 ret1 rt1 where
      rest: "reconcileRoutePolicies_loop env nm ds (err1, ret1, rt1) = Some (err, ret, rt)"
    and frame: "\<forall>k. k \<noteq> k' \<longrightarrow> go_lookup ret1 k = go_lookup ret0 k"
    using reconcileRoutePolicies_loop_step [OF Cons.prems(1) [unfolded kd]] by auto
  show ?case using Cons.IH [OF rest] Cons.prems(2) frame by (simp add: kd)
qed

lemma reconcileRoutePolicies_loop_error_kept:
  "reconcileRoutePolicies_loop env nm ds (Some E0, ret0, rt0) = Some (err, ret, rt) \<Longrightarrow>
   errors_Is E0 x \<Longrightarrow> \<exists>E. err = Some E \<and> errors_Is E x"
proof (induction ds arbitrary: E0 ret0 rt0)
  case Nil
  then show ?case by auto
next
  case (Cons kd ds)
  obtain k d where kd: "kd = (k, d)" by (cases kd) auto
  obtain err1 ret1 rt1 where
      rest: "reconcileRoutePolicies_loop env nm ds (err1, ret1, rt1) = Some (err, ret, rt)"
    and sk: "skipped ret0 (k, d) \<longrightarrow> err1 = Some E0"
    and ns: "\<not> skipped ret0 (k, d) \<longrightarrow>
               err1 = errors_Join (Some E0) (snd (fst (engineResult env nm ret0 (k, d) rt0)))"
    using reconcileRoutePolicies_loop_step [OF Cons.prems(1) [unfolded kd]] by auto
  have "\<exists>E1. err1 = Some E1 \<and> errors_Is E1 x"
    using sk ns errors_Join_keeps [OF Cons.prems(2)] Cons.prems(2)
    by (cases "skipped ret0 (k, d)") auto
  then obtain E1 where "err1 = Some E1" "errors_Is E1 x" by blast
  then show ?case using Cons.IH [of E1 ret1 rt1] rest by simp
qed

lemma reconcileRoutePolicies_loop_key:
  "reconcileRoutePolicies_loop env nm ds (err0, ret0, rt0) = Some (err, ret, rt) \<Longrightarrow>
   distinct (map fst ds) \<Longrightarrow> (k, d) \<in> set ds \<Longrightarrow> \<not> skipped ret0 (k, d) \<Longrightarrow>
   R = engineResult env nm ret0 (k, d)
         (enginePass env nm ret0 (takeWhile (\<lambda>kd. fst kd \<noteq> k) ds) rt0) \<Longrightarrow>
   go_lookup ret k = (if snd (fst R) = None \<and> go_len d = 0 then None else Some (fst (fst R)))
   \<and> (\<forall>e. snd (fst R) = Some e \<longrightarrow> (\<exists>E. err = Some E \<and> errors_Is E e))"
proof (induction ds arbitrary: err0 ret0 rt0)
  case Nil
  then show ?case by simp
next
  case (Cons kd' ds)
  obtain k' d' where kd': "kd' = (k', d')" by (cases kd') auto
  obtain err1 ret1 rt1 where
      rest: "reconcileRoutePolicies_loop env nm ds (err1, ret1, rt1) = Some (err, ret, rt)"
    and frame: "\<forall>x. x \<noteq> k' \<longrightarrow> go_lookup ret1 x = go_lookup ret0 x"
    and sk: "skipped ret0 (k', d') \<longrightarrow> err1 = err0 \<and> rt1 = rt0 \<and> go_lookup ret1 k' = None"
    and ns: "\<not> skipped ret0 (k', d') \<longrightarrow>
                err1 = errors_Join err0 (snd (fst (engineResult env nm ret0 (k', d') rt0)))
              \<and> rt1 = snd (engineResult env nm ret0 (k', d') rt0)
              \<and> go_lookup ret1 k' =
                  (if snd (fst (engineResult env nm ret0 (k', d') rt0)) = None \<and> go_len d' = 0
                   then None else Some (fst (fst (engineResult env nm ret0 (k', d') rt0))))"
    using reconcileRoutePolicies_loop_step [OF Cons.prems(1) [unfolded kd']] by auto
  have notin: "k' \<notin> fst ` set ds" and dist: "distinct (map fst ds)"
    using Cons.prems(2) by (simp_all add: kd')
  show ?case
  proof (cases "k' = k")
    case True
    then have dd: "d' = d" using Cons.prems(3) notin by (force simp: kd')
    have R: "R = engineResult env nm ret0 (k, d) rt0"
      using Cons.prems(5) True by (simp add: kd' enginePass_def)
    have look: "go_lookup ret k = go_lookup ret1 k"
      using reconcileRoutePolicies_loop_frame [OF rest] notin True by simp
    have e1: "err1 = errors_Join err0 (snd (fst R))"
      and l1: "go_lookup ret1 k = (if snd (fst R) = None \<and> go_len d = 0 then None
                                   else Some (fst (fst R)))"
      using ns Cons.prems(4) True dd R by simp_all
    have "\<exists>E. err = Some E \<and> errors_Is E e" if "snd (fst R) = Some e" for e
    proof -
      have "err1 = errors_Join err0 (Some e)" using e1 that by simp
      then obtain E1 where "err1 = Some E1" "errors_Is E1 e"
        using errors_Join_adds [of err0 e] by auto
      then show ?thesis
        using reconcileRoutePolicies_loop_error_kept [of env nm ds E1 ret1 rt1 err ret rt e] rest
        by simp
    qed
    then show ?thesis using look l1 by simp
  next
    case False
    then have mem: "(k, d) \<in> set ds" using Cons.prems(3) by (simp add: kd')
    have l: "go_lookup ret1 k = go_lookup ret0 k" using frame False by simp
    then have nsk: "\<not> skipped ret1 (k, d)" using Cons.prems(4) by (simp add: skipped_def)
    have same: "\<forall>kd \<in> set (takeWhile (\<lambda>kd. fst kd \<noteq> k) ds).
                  go_lookup ret1 (fst kd) = go_lookup ret0 (fst kd)"
      using frame notin by (auto dest!: set_takeWhileD)
    have rt1: "rt1 = (if skipped ret0 (k', d') then rt0
                      else snd (engineResult env nm ret0 (k', d') rt0))"
      using sk ns by auto
    have "enginePass env nm ret0 (takeWhile (\<lambda>kd. fst kd \<noteq> k) (kd' # ds)) rt0
          = enginePass env nm ret1 (takeWhile (\<lambda>kd. fst kd \<noteq> k) ds) rt1"
      using False by (simp add: kd' enginePass_Cons rt1 enginePass_cong [OF same])
    moreover have "\<And>x. engineResult env nm ret1 (k, d) x = engineResult env nm ret0 (k, d) x"
      using l by (simp add: engineResult_def currentOf_def)
    ultimately have "R = engineResult env nm ret1 (k, d)
         (enginePass env nm ret1 (takeWhile (\<lambda>kd. fst kd \<noteq> k) ds) rt1)"
      using Cons.prems(5) by simp
    then show ?thesis using Cons.IH [OF rest dist mem nsk] by simp
  qed
qed

lemma reconcileRoutePolicies_loop_skipped:
  "reconcileRoutePolicies_loop env nm ds (err0, ret0, rt0) = Some (err, ret, rt) \<Longrightarrow>
   distinct (map fst ds) \<Longrightarrow> (k, d) \<in> set ds \<Longrightarrow> skipped ret0 (k, d) \<Longrightarrow>
   go_lookup ret k = None"
proof (induction ds arbitrary: err0 ret0 rt0)
  case Nil
  then show ?case by simp
next
  case (Cons kd' ds)
  obtain k' d' where kd': "kd' = (k', d')" by (cases kd') auto
  obtain err1 ret1 rt1 where
      rest: "reconcileRoutePolicies_loop env nm ds (err1, ret1, rt1) = Some (err, ret, rt)"
    and frame: "\<forall>x. x \<noteq> k' \<longrightarrow> go_lookup ret1 x = go_lookup ret0 x"
    and sk: "skipped ret0 (k', d') \<longrightarrow> go_lookup ret1 k' = None"
    using reconcileRoutePolicies_loop_step [OF Cons.prems(1) [unfolded kd']] by auto
  have notin: "k' \<notin> fst ` set ds" and dist: "distinct (map fst ds)"
    using Cons.prems(2) by (simp_all add: kd')
  show ?case
  proof (cases "k' = k")
    case True
    then have "d' = d" using Cons.prems(3) notin by (force simp: kd')
    then have "go_lookup ret1 k = None" using sk Cons.prems(4) True by simp
    then show ?thesis using reconcileRoutePolicies_loop_frame [OF rest] notin True by simp
  next
    case False
    then have mem: "(k, d) \<in> set ds" using Cons.prems(3) by (simp add: kd')
    have "skipped ret1 (k, d)" using frame False Cons.prems(4) by (simp add: skipped_def)
    then show ?thesis using Cons.IH [OF rest dist mem] by simp
  qed
qed

text \<open>
  The desired policies of three pools are applied; the router rejects the policy of
  \<open>pool-b\<close>. The engine is still called for \<open>pool-c\<close>, the policies of
  \<open>pool-a\<close> and \<open>pool-c\<close> are retained, and the error of \<open>pool-b\<close> is part
  of the result. The retained map had no entry for \<open>pool-b\<close>; after the pass it has
  one, with the value the engine returned with the error.
\<close>

theorem failed_key_gets_entry_counterexample:
  "reconcileRoutePolicies_loop (example_env [''peer0-ipv4-PodIPPool-pool-b'']) ''instance-65001''
       exampleDesired (None, (Some [(Key ''pool-c'' ''ns'', Some [(''peer0-ipv4-PodIPPool-old'', examplePolicy ''old'')])]), 0)
     = Some (Some (ErrJoin [ErrJoin [ErrMsg ''router: policy rejected'']]),
             (Some [(Key ''pool-c'' ''ns'', Some [(''peer0-ipv4-PodIPPool-pool-c'', examplePolicy ''pool-c'')]),
                   (Key ''pool-a'' ''ns'', Some [(''peer0-ipv4-PodIPPool-pool-a'', examplePolicy ''pool-a'')]),
                   (Key ''pool-b'' ''ns'', None)]), 3)
   \<and> go_lookup (Some [(Key ''pool-c'' ''ns'', Some [(''peer0-ipv4-PodIPPool-old'', examplePolicy ''old'')])]) (Key ''pool-b'' ''ns'') = None
   \<and> go_lookup (Some [(Key ''pool-c'' ''ns'', Some [(''peer0-ipv4-PodIPPool-pool-c'', examplePolicy ''pool-c'')]),
                   (Key ''pool-a'' ''ns'', Some [(''peer0-ipv4-PodIPPool-pool-a'', examplePolicy ''pool-a'')]),
                   (Key ''pool-b'' ''ns'', None)]) (Key ''pool-b'' ''ns'') = Some None"
  by (simp add: example_defs model_defs exampleDesired_def examplePolicy_def Let_def)

text \<open>
  C3 (amended). In the route policy pass over a desired mapping (with distinct keys) that
  does not panic, whatever the engine reports for a key: the engine is called for every
  entry that is not skipped (the router state after the pass is the state after all these
  calls, in order), the errors of the calls are joined into the returned error, keys
  outside the desired mapping keep their retained value, and the retained value of a key
  the engine was called for is the policy set the engine returned, also when it returned
  an error, so that a failed key without an entry gets one; only a call without error for
  an empty desired set removes the key.
\<close>

theorem failed_key_keeps_engine_result_other_keys_attempted:
  assumes "reconcileRoutePolicies_loop env nm ds (None, retained, rt) = Some (err, retained', rt')"
    and "distinct (map fst ds)"
  shows "rt' = enginePass env nm retained ds rt
    \<and> (\<forall>k. k \<notin> fst ` set ds \<longrightarrow> go_lookup retained' k = go_lookup retained k)
    \<and> (\<forall>kd \<in> set ds. skipped retained kd \<longrightarrow> go_lookup retained' (fst kd) = None)
    \<and> (\<forall>kd \<in> set ds. \<not> skipped retained kd \<longrightarrow>
          go_lookup retained' (fst kd)
            = (if snd (fst (engineResult env nm retained kd
                              (enginePass env nm retained
                                 (takeWhile (\<lambda>x. fst x \<noteq> fst kd) ds) rt))) = None
                  \<and> go_len (snd kd) = 0
               then None
               else Some (fst (fst (engineResult env nm retained kd
                              (enginePass env nm retained
                                 (takeWhile (\<lambda>x. fst x \<noteq> fst kd) ds) rt)))))
          \<and> (\<forall>e. snd (fst (engineResult env nm retained kd
                              (enginePass env nm retained
                                 (takeWhile (\<lambda>x. fst x \<noteq> fst kd) ds) rt))) = Some e
                \<longrightarrow> (\<exists>E. err = Some E \<and> errors_Is E e)))"
proof (intro conjI allI ballI impI)
  show "rt' = enginePass env nm retained ds rt"
    using assms by (rule reconcileRoutePolicies_loop_router)
next
  fix k assume "k \<notin> fst ` set ds"
  then show "go_lookup retained' k = go_lookup retained k"
    using reconcileRoutePolicies_loop_frame [OF assms(1)] by simp
next
  fix kd assume "kd \<in> set ds" "skipped retained kd"
  then show "go_lookup retained' (fst kd) = None"
    using reconcileRoutePolicies_loop_skipped [OF assms, of "fst kd" "snd kd"] by simp
next
  fix kd assume a: "kd \<in> set ds" "\<not> skipped retained kd"
  note key = reconcileRoutePolicies_loop_key [OF assms, of "fst kd" "snd kd", OF _ _ refl]
  show "go_lookup retained' (fst kd)
            = (if snd (fst (engineResult env nm retained kd
                              (enginePass env nm retained
                                 (takeWhile (\<lambda>x. fst x \<noteq> fst kd) ds) rt))) = None
                  \<and> go_len (snd kd) = 0
               then None
               else Some (fst (fst (engineResult env nm retained kd
                              (enginePass env nm retained
                                 (takeWhile (\<lambda>x. fst x \<noteq> fst kd) ds) rt)))))"
    using key a by simp
  fix e assume "snd (fst (engineResult env nm retained kd
                              (enginePass env nm retained
                                 (takeWhile (\<lambda>x. fst x \<noteq> fst kd) ds) rt))) = Some e"
  then show "\<exists>E. err = Some E \<and> errors_Is E e"
    using key a by simp
qed


theorem failed_key_keeps_engine_result_other_keys_attempted_witness:
  "distinct (map fst exampleDesired)
   \<and> reconcileRoutePolicies_loop (example_env [''peer0-ipv4-PodIPPool-pool-b'']) ''instance-65001''
       exampleDesired (None, (Some [(Key ''pool-c'' ''ns'', Some [(''peer0-ipv4-PodIPPool-old'', examplePolicy ''old'')])]), 0)
     = Some (Some (ErrJoin [ErrJoin [ErrMsg ''router: policy rejected'']]),
             (Some [(Key ''pool-c'' ''ns'', Some [(''peer0-ipv4-PodIPPool-pool-c'', examplePolicy ''pool-c'')]),
                   (Key ''pool-a'' ''ns'', Some [(''peer0-ipv4-PodIPPool-pool-a'', examplePolicy ''pool-a'')]),
                   (Key ''pool-b'' ''ns'', None)]), 3)
   \<and> enginePass (example_env [''peer0-ipv4-PodIPPool-pool-b'']) ''instance-65001''
       (Some [(Key ''pool-c'' ''ns'', Some [(''peer0-ipv4-PodIPPool-old'', examplePolicy ''old'')])]) exampleDesired 0 = 3
   \<and> engineResult (example_env [''peer0-ipv4-PodIPPool-pool-b'']) ''instance-65001'' (Some [(Key ''pool-c'' ''ns'', Some [(''peer0-ipv4-PodIPPool-old'', examplePolicy ''old'')])])
        (Key ''pool-b'' ''ns'', Some [(''peer0-ipv4-PodIPPool-pool-b'', examplePolicy ''pool-b'')]) 1
     = ((None, Some (ErrMsg ''router: policy rejected'')), 2)
   \<and> errors_Is (ErrJoin [ErrJoin [ErrMsg ''router: policy rejected'']])
        (ErrMsg ''router: policy rejected'')
   \<and> go_lookup (Some [(Key ''pool-c'' ''ns'', Some [(''peer0-ipv4-PodIPPool-pool-c'', examplePolicy ''pool-c'')]),
                   (Key ''pool-a'' ''ns'', Some [(''peer0-ipv4-PodIPPool-pool-a'', examplePolicy ''pool-a'')]),
                   (Key ''pool-b'' ''ns'', None)]) (Key ''pool-c'' ''ns'')
     = Some (Some [(''peer0-ipv4-PodIPPool-pool-c'', examplePolicy ''pool-c'')])"
  using failed_key_keeps_engine_result_other_keys_attempted
          [of "example_env [''peer0-ipv4-PodIPPool-pool-b'']" "''instance-65001''" exampleDesired
              "(Some [(Key ''pool-c'' ''ns'', Some [(''peer0-ipv4-PodIPPool-old'', examplePolicy ''old'')])])" 0
              "Some (ErrJoin [ErrJoin [ErrMsg ''router: policy rejected'']])"
              "(Some [(Key ''pool-c'' ''ns'', Some [(''peer0-ipv4-PodIPPool-pool-c'', examplePolicy ''pool-c'')]),
                   (Key ''pool-a'' ''ns'', Some [(''peer0-ipv4-PodIPPool-pool-a'', examplePolicy ''pool-a'')]),
                   (Key ''pool-b'' ''ns'', None)])" 3]
  by (simp add: example_defs model_defs exampleDesired_def examplePolicy_def enginePass_def
        engineResult_def skipped_def currentOf_def Let_def)


subsection \<open>A store that has not synced\<close>

text \<open>
  C2. The store returns the uninitialized-store error from \<open>List\<close> and \<open>GetByKey\<close>.
  \<open>Reconcile\<close> returns before any call to an engine, but the error it returns is the
  store's error as it is, from the derivation of the route policies, which runs first;
  the abort sentinel is not part of it. The derivation of the paths, on the same input,
  joins the sentinel.
\<close>

theorem uninitialized_store_error_lacks_abort_sentinel:
  "Reconcile (example_env [])
      (example_reconciler (example_adverts ''192.0.2.1'' [advertTeam ''a'']) uninitialized_store
         (Some \<lparr>PoolAFPaths = Some [], PoolRoutePolicies = Some []\<rparr>))
      example_params 0
     = Some (Some ErrStoreUninitialized,
             example_reconciler (example_adverts ''192.0.2.1'' [advertTeam ''a''])
               uninitialized_store (Some \<lparr>PoolAFPaths = Some [], PoolRoutePolicies = Some []\<rparr>),
             0)
   \<and> \<not> errors_Is ErrStoreUninitialized ErrAbortReconcile
   \<and> getDesiredPodIPPoolRoutePolicies (example_env [])
        (example_reconciler (example_adverts ''192.0.2.1'' [advertTeam ''a'']) uninitialized_store
           (Some \<lparr>PoolAFPaths = Some [], PoolRoutePolicies = Some []\<rparr>))
        example_instance (example_adverts ''192.0.2.1'' [advertTeam ''a''])
        (fst (populateLocalPools (example_env []) (Some example_node)))
     = Inl ErrStoreUninitialized
   \<and> getDesiredPoolAFPaths (example_env [])
        (example_reconciler (example_adverts ''192.0.2.1'' [advertTeam ''a'']) uninitialized_store
           (Some \<lparr>PoolAFPaths = Some [], PoolRoutePolicies = Some []\<rparr>))
        example_instance (example_adverts ''192.0.2.1'' [advertTeam ''a''])
        (fst (populateLocalPools (example_env []) (Some example_node)))
     = Inl (ErrJoin [ErrStoreUninitialized, ErrAbortReconcile])
   \<and> errors_Is (ErrJoin [ErrStoreUninitialized, ErrAbortReconcile]) ErrAbortReconcile"
  by (simp add: example_defs model_defs Let_def)

subsection \<open>Retained metadata after a pass\<close>




lemma getMetadata_setMetadata [simp]: "getMetadata (setMetadata r i md) i = md"
  by (simp add: getMetadata_def setMetadata_def)


lemma setMetadata_fields [simp]:
  "poolStore (setMetadata r i md) = poolStore r" "peerAdvert (setMetadata r i md) = peerAdvert r"
  by (simp_all add: setMetadata_def)









subsection \<open>A second pass over the same inputs\<close>

lemma same_content_refl [simp]: "same_content a a"
  by (simp add: same_content_def)




















lemma metadata_setMetadata_same [simp]:
  "metadata (setMetadata r i md) (instance_Name i) = Some md"
  by (simp add: setMetadata_def)









end
